theory Spec2Isabelle
  imports Main
begin

section \<open>Python values, the store and the environment of \<open>nnfabrik/builder.py\<close>\<close>

text \<open>
  \<open>builder.py\<close> is glue: it resolves an identifier to a callable, expands a
  configuration dictionary into keyword arguments and calls collaborators it knows
  nothing about. The model keeps the collaborators opaque (they are fields of an
  environment the theorems quantify over; each of their calls returns a value or
  raises, and may change the store) and writes out everything the four functions
  themselves do: the \<open>isinstance\<close> tests, the keyword expansion and its
  \<open>TypeError\<close>s, each raise as an \<open>Inl\<close>, and a trace of the actions the builder
  performs on its environment.
\<close>

type_synonym addr = nat

text \<open>
  Python values. Dictionaries and \<open>nn.Module\<close> objects are mutable and shared, so a
  value holds their address in the store; \<open>PFun\<close> is an opaque callable (a function,
  a class); \<open>PPartial f args kw\<close> is a \<open>functools.partial\<close> object, which owns
  a copy of its keywords.
\<close>

datatype pyval =
    PNone
  | PBool bool
  | PInt int
  | PStr string
  | PTuple "pyval list"
  | PDict addr
  | PModule addr
  | PFun nat
  | PPartial pyval "pyval list" "(string \<times> pyval) list"

type_synonym kwargs = "(string \<times> pyval) list"

datatype error =
    TypeError
  | AttributeError
  | KeyError
  | IndexError
  | SyntaxError
  | RuntimeError
  | Raised nat

text \<open>
  The store: the items of every dictionary, in insertion order (keys are strings, as the
  specification's configuration mappings have them), and the named parameters of every
  \<open>nn.Module\<close>.
\<close>

record store =
  dicts :: "addr \<Rightarrow> kwargs"
  modules :: "addr \<Rightarrow> kwargs"

text \<open>
  What the builder itself does to its environment, in order. What an import or an
  \<open>eval\<close> runs in turn (the code of a module, a call inside the evaluated text) is
  part of that step and not an event of its own.
\<close>

datatype event =
    Printed pyval
  | Imported string string
  | Evaluated string
  | Called pyval "pyval list" kwargs
  | Loaded pyval pyval bool

record state =
  store :: store
  trace :: "event list"

type_synonym 'a outcome = "(error + 'a) \<times> store"
type_synonym 'a result = "(error + 'a) \<times> state"

text \<open>
  The environment of the module. \<open>datasets\<close>, \<open>models\<close> and \<open>training\<close> are the
  attributes of the three packages imported at the top of \<open>builder.py\<close>.
  \<open>dynamic_import\<close> is the helper of \<open>utility/nnf_helper.py\<close>, which is not part of
  the source tree: it is a parameter, and since importing a module runs its code it may
  change the store. \<open>apply_fn\<close> is what calling an opaque callable does.
  \<open>eval_other\<close> is what Python's \<open>eval\<close> does on a source text that is neither
  \<open>package.name\<close> nor \<open>package.name()\<close> with a plain name (it may be a syntax
  error, another expression, anything).
\<close>

record env =
  datasets :: "string \<rightharpoonup> pyval"
  models :: "string \<rightharpoonup> pyval"
  training :: "string \<rightharpoonup> pyval"
  dynamic_import :: "string \<Rightarrow> string \<Rightarrow> store \<Rightarrow> pyval outcome"
  apply_fn :: "pyval \<Rightarrow> pyval list \<Rightarrow> kwargs \<Rightarrow> store \<Rightarrow> pyval outcome"
  eval_other :: "string \<Rightarrow> store \<Rightarrow> pyval outcome"

datatype kind = Datasets | Models | Training

fun namespace :: "env \<Rightarrow> kind \<Rightarrow> (string \<rightharpoonup> pyval)" where
  "namespace env Datasets = datasets env"
| "namespace env Models = models env"
| "namespace env Training = training env"

fun package_prefix :: "kind \<Rightarrow> string" where
  "package_prefix Datasets = ''datasets.''"
| "package_prefix Models = ''models.''"
| "package_prefix Training = ''training.''"

section \<open>Python primitives the builder uses\<close>

text \<open>\<open>{**k, **kw}\<close>: a key already present keeps its place and takes the new value, a
  new key goes to the end.\<close>

fun dict_set :: "kwargs \<Rightarrow> string \<Rightarrow> pyval \<Rightarrow> kwargs" where
  "dict_set [] k v = [(k, v)]"
| "dict_set ((k', v') # rest) k v =
     (if k' = k then (k, v) # rest else (k', v') # dict_set rest k v)"

fun dict_merge :: "kwargs \<Rightarrow> kwargs \<Rightarrow> kwargs" where
  "dict_merge d [] = d"
| "dict_merge d ((k, v) # rest) = dict_merge (dict_set d k v) rest"

text \<open>\<open>callable(v)\<close>.\<close>

fun callable :: "pyval \<Rightarrow> bool" where
  "callable (PFun n) = True"
| "callable (PModule m) = True"
| "callable (PPartial f args kw) = True"
| "callable v = False"

text \<open>
  \<open>f(*args, **kw)\<close>. A partial object calls its function with its own arguments first
  and its keywords overridden by the call's; a value that is not callable raises
  \<open>TypeError\<close>.
\<close>

fun call :: "env \<Rightarrow> pyval \<Rightarrow> pyval list \<Rightarrow> kwargs \<Rightarrow> store \<Rightarrow> pyval outcome" where
  "call env (PFun n) args kw st = apply_fn env (PFun n) args kw st"
| "call env (PModule m) args kw st = apply_fn env (PModule m) args kw st"
| "call env (PPartial f a k) args kw st = call env f (a @ args) (dict_merge k kw) st"
| "call env v args kw st = (Inl TypeError, st)"

text \<open>
  \<open>**cfg\<close>: the items of a dictionary, copied (the callee never receives the
  dictionary itself); anything else is not a mapping and raises \<open>TypeError\<close>. Keys
  are strings here, so the \<open>TypeError\<close> of a keyword that is not a string cannot arise.
\<close>

fun expand :: "store \<Rightarrow> pyval \<Rightarrow> error + kwargs" where
  "expand st (PDict a) = Inr (dicts st a)"
| "expand st v = Inl TypeError"

text \<open>
  \<open>functools.partial(f, *args, **kw)\<close>: the function must be callable, and a partial of
  a partial is flattened, as the library does.
\<close>

fun partial :: "pyval \<Rightarrow> pyval list \<Rightarrow> kwargs \<Rightarrow> error + pyval" where
  "partial (PPartial f a k) args kw = Inr (PPartial f (a @ args) (dict_merge k kw))"
| "partial f args kw = (if callable f then Inr (PPartial f args kw) else Inl TypeError)"

text \<open>
  \<open>xs[i]\<close> on a sequence: a negative index counts from the end, an index out of range
  raises \<open>IndexError\<close>. A \<open>bool\<close> is an \<open>int\<close> in Python.
\<close>

definition py_index :: "'a list \<Rightarrow> int \<Rightarrow> error + 'a" where
  "py_index xs i =
     (let n = int (length xs); j = (if i < 0 then i + n else i)
      in if 0 \<le> j \<and> j < n then Inr (xs ! nat j) else Inl IndexError)"

fun as_index :: "pyval \<Rightarrow> int option" where
  "as_index (PInt i) = Some i"
| "as_index (PBool b) = Some (if b then 1 else 0)"
| "as_index v = None"

fun hashable :: "pyval \<Rightarrow> bool" where
  "hashable (PDict a) = False"
| "hashable (PTuple xs) = list_all hashable xs"
| "hashable v = True"

text \<open>
  \<open>container[key]\<close>. A dictionary raises \<open>KeyError\<close> for a key it does not hold
  (its keys are strings, so every other hashable key is absent) and \<open>TypeError\<close> for
  an unhashable one; the values that have no \<open>__getitem__\<close> raise \<open>TypeError\<close>.
\<close>

fun subscript :: "store \<Rightarrow> pyval \<Rightarrow> pyval \<Rightarrow> error + pyval" where
  "subscript st (PDict a) key =
     (case key of
        PStr k \<Rightarrow> (case map_of (dicts st a) k of None \<Rightarrow> Inl KeyError | Some v \<Rightarrow> Inr v)
      | _ \<Rightarrow> if hashable key then Inl KeyError else Inl TypeError)"
| "subscript st (PTuple xs) key =
     (case as_index key of None \<Rightarrow> Inl TypeError | Some i \<Rightarrow> py_index xs i)"
| "subscript st (PStr cs) key =
     (case as_index key of
        None \<Rightarrow> Inl TypeError
      | Some i \<Rightarrow> (case py_index cs i of Inl e \<Rightarrow> Inl e | Inr c \<Rightarrow> Inr (PStr [c])))"
| "subscript st v key = Inl TypeError"

section \<open>Names: \<open>split_module_name\<close> and \<open>eval\<close>\<close>

text \<open>
  Modelled from the spec: \<open>split_module_name\<close> is defined in
  \<open>utility/nnf_helper.py\<close>, which is not part of the source tree. The specification
  describes an identifier as a dotted path split into a module-path prefix and a
  symbol-name suffix (\<open>foo.bar.make_loaders\<close> is \<open>make_loaders\<close> of \<open>foo.bar\<close>):
  the symbol name is what follows the last dot, the module path what precedes it, and
  a string without a dot has the empty module path.
\<close>

definition split_module_name :: "string \<Rightarrow> string \<times> string" where
  "split_module_name name =
     (let r = rev name
      in (rev (drop 1 (dropWhile (\<lambda>c. c \<noteq> CHR ''.'') r)),
          rev (takeWhile (\<lambda>c. c \<noteq> CHR ''.'') r)))"

text \<open>A plain Python name: an ASCII letter or underscore, then letters, digits and
  underscores, and not a reserved word.\<close>

definition name_start :: "char \<Rightarrow> bool" where
  "name_start c =
     (let n = (of_char c :: nat)
      in n = 95 \<or> (65 \<le> n \<and> n \<le> 90) \<or> (97 \<le> n \<and> n \<le> 122))"

definition name_char :: "char \<Rightarrow> bool" where
  "name_char c = (name_start c \<or> (let n = (of_char c :: nat) in 48 \<le> n \<and> n \<le> 57))"

definition reserved :: "string list" where
  "reserved =
     [''False'', ''None'', ''True'', ''and'', ''as'', ''assert'', ''async'', ''await'',
      ''break'', ''class'', ''continue'', ''def'', ''del'', ''elif'', ''else'', ''except'',
      ''finally'', ''for'', ''from'', ''global'', ''if'', ''import'', ''in'', ''is'',
      ''lambda'', ''nonlocal'', ''not'', ''or'', ''pass'', ''raise'', ''return'', ''try'',
      ''while'', ''with'', ''yield'']"

definition is_identifier :: "string \<Rightarrow> bool" where
  "is_identifier name =
     (case name of
        [] \<Rightarrow> False
      | c # cs \<Rightarrow> name_start c \<and> list_all name_char cs \<and> name \<notin> set reserved)"

text \<open>The text \<open>name()\<close>, a plain name followed by an empty argument list: the name.\<close>

definition called_name :: "string \<Rightarrow> string option" where
  "called_name text =
     (let n = length text - 2
      in if 2 \<le> length text \<and> drop n text = ''()'' \<and> is_identifier (take n text)
         then Some (take n text) else None)"

text \<open>
  \<open>eval('models.' + name)\<close> inside the builder module, where \<open>models\<close> is the
  imported package: the text is evaluated as a Python expression. For a plain name the
  expression is an attribute access on the package: its value, or \<open>AttributeError\<close>.
  For a plain name followed by \<open>()\<close> it is a call of that attribute with no
  argument. Every other text is left to the interpreter (\<open>eval_other\<close>).
\<close>

definition py_eval :: "env \<Rightarrow> kind \<Rightarrow> string \<Rightarrow> store \<Rightarrow> pyval outcome" where
  "py_eval env k name st =
     (if is_identifier name then
        (case namespace env k name of
           None \<Rightarrow> (Inl AttributeError, st)
         | Some v \<Rightarrow> (Inr v, st))
      else
        (case called_name name of
           Some n \<Rightarrow>
             (case namespace env k n of
                None \<Rightarrow> (Inl AttributeError, st)
              | Some v \<Rightarrow> call env v [] [] st)
         | None \<Rightarrow> eval_other env (package_prefix k @ name) st))"

section \<open>Loading a state dictionary\<close>

text \<open>
  \<open>net.load_state_dict(state_dict, strict=strict)\<close> is a method of the object the model
  builder returns (an \<open>nn.Module\<close>, says the docstring of \<open>get_model\<close>). Its code is
  not part of the source tree; what the specification says of it is: in strict mode
  every parameter name must match, in non-strict mode missing and extra parameter
  names are tolerated.
\<close>

text \<open>Modelled from the spec: the parameter names of the module that the blob of
  \<open>load_state_dict\<close> (a method absent from the source tree) does not have.\<close>

definition missing_keys :: "kwargs \<Rightarrow> kwargs \<Rightarrow> string list" where
  "missing_keys params blob = filter (\<lambda>k. map_of blob k = None) (map fst params)"

text \<open>Modelled from the spec: the names in the blob of \<open>load_state_dict\<close> (absent from
  the source tree) that are not parameters of the module.\<close>

definition unexpected_keys :: "kwargs \<Rightarrow> kwargs \<Rightarrow> string list" where
  "unexpected_keys params blob = filter (\<lambda>k. map_of params k = None) (map fst blob)"

text \<open>Modelled from the spec: the parameter-name mismatch that \<open>load_state_dict\<close>
  (absent from the source tree) refuses in strict mode: a missing or an extra name.\<close>

definition mismatch :: "kwargs \<Rightarrow> kwargs \<Rightarrow> bool" where
  "mismatch params blob = (missing_keys params blob \<noteq> [] \<or> unexpected_keys params blob \<noteq> [])"

text \<open>Modelled from the spec: what a successful \<open>load_state_dict\<close> (absent from the
  source tree) leaves in the module: a parameter the blob names takes the blob's value,
  the others keep theirs, extra names are dropped.\<close>

definition overwrite :: "kwargs \<Rightarrow> kwargs \<Rightarrow> kwargs" where
  "overwrite params blob =
     map (\<lambda>(k, v). (k, case map_of blob k of None \<Rightarrow> v | Some v' \<Rightarrow> v')) params"

text \<open>
  Modelled from the spec: \<open>load_state_dict\<close>, the method of the model object, whose
  code is not part of the source tree. Strict mode fails (\<open>RuntimeError\<close>) on a
  mismatch of names; otherwise the load succeeds and returns the two lists of names
  that did not match. The specification does not say what a failed load leaves in the
  module: here it is left as it was, and nothing below depends on it. A value that is
  not a module has no such method (\<open>AttributeError\<close>), and a blob that is not a
  dictionary is refused (\<open>TypeError\<close>).
\<close>

definition load_state_dict :: "pyval \<Rightarrow> pyval \<Rightarrow> bool \<Rightarrow> store \<Rightarrow> pyval outcome" where
  "load_state_dict net state_dict strict st =
     (case net of
        PModule m \<Rightarrow>
          (case state_dict of
             PDict d \<Rightarrow>
               (let params = modules st m; blob = dicts st d
                in if strict \<and> mismatch params blob then (Inl RuntimeError, st)
                   else (Inr (PTuple [PTuple (map PStr (missing_keys params blob)),
                                      PTuple (map PStr (unexpected_keys params blob))]),
                         st\<lparr>modules := (modules st)(m := overwrite params blob)\<rparr>))
           | _ \<Rightarrow> (Inl TypeError, st))
      | _ \<Rightarrow> (Inl AttributeError, st))"

section \<open>The steps of the builder\<close>

text \<open>Each step acts on the store and appends what it did to the trace.\<close>

definition py_print :: "pyval \<Rightarrow> state \<Rightarrow> state" where
  "py_print v s = s\<lparr>trace := trace s @ [Printed v]\<rparr>"

definition import_step :: "env \<Rightarrow> string \<Rightarrow> string \<Rightarrow> state \<Rightarrow> pyval result" where
  "import_step env module_path class_name s =
     (case dynamic_import env module_path class_name (store s) of
        (r, st) \<Rightarrow> (r, \<lparr>store = st, trace = trace s @ [Imported module_path class_name]\<rparr>))"

definition eval_step :: "env \<Rightarrow> kind \<Rightarrow> string \<Rightarrow> state \<Rightarrow> pyval result" where
  "eval_step env k name s =
     (case py_eval env k name (store s) of
        (r, st) \<Rightarrow> (r, \<lparr>store = st, trace = trace s @ [Evaluated (package_prefix k @ name)]\<rparr>))"

definition invoke :: "env \<Rightarrow> pyval \<Rightarrow> pyval list \<Rightarrow> kwargs \<Rightarrow> state \<Rightarrow> pyval result" where
  "invoke env f args kw s =
     (case call env f args kw (store s) of
        (r, st) \<Rightarrow> (r, \<lparr>store = st, trace = trace s @ [Called f args kw]\<rparr>))"

definition load_step :: "pyval \<Rightarrow> pyval \<Rightarrow> bool \<Rightarrow> state \<Rightarrow> pyval result" where
  "load_step net state_dict strict s =
     (case load_state_dict net state_dict strict (store s) of
        (r, st) \<Rightarrow> (r, \<lparr>store = st, trace = trace s @ [Loaded net state_dict strict]\<rparr>))"

text \<open>
  The two lines every function of the builder starts with:
  \<^verbatim>\<open>module_path, class_name = split_module_name(fn)\<close>
  \<^verbatim>\<open>fn = dynamic_import(module_path, class_name) if module_path else eval('models.' + fn)\<close>
  Note that \<open>eval\<close> receives the whole string, not \<open>class_name\<close>.
\<close>

definition resolve_name :: "env \<Rightarrow> kind \<Rightarrow> string \<Rightarrow> state \<Rightarrow> pyval result" where
  "resolve_name env k name s =
     (case split_module_name name of
        (module_path, class_name) \<Rightarrow>
          if module_path \<noteq> [] then import_step env module_path class_name s
          else eval_step env k name s)"

text \<open>\<open>if isinstance(fn, str): ...\<close>; any other value is left as it is.\<close>

definition resolve :: "env \<Rightarrow> kind \<Rightarrow> pyval \<Rightarrow> state \<Rightarrow> pyval result" where
  "resolve env k fn s = (case fn of PStr name \<Rightarrow> resolve_name env k name s | _ \<Rightarrow> (Inr fn, s))"

section \<open>The four functions of \<open>builder.py\<close>\<close>

text \<open>
  \<open>get_model(model_fn, model_config, dataloader, seed, state_dict, strict)\<close>. The
  defaults of the source (\<open>seed=None\<close>, \<open>state_dict=None\<close>, \<open>strict=True\<close>) are
  for the caller to pass. The call \<open>model_fn(dataloader, seed=seed, **model_config)\<close>
  raises \<open>TypeError\<close> before it reaches the function when the configuration is not a
  mapping or has a key \<open>seed\<close> of its own.
\<close>

definition get_model ::
  "env \<Rightarrow> pyval \<Rightarrow> pyval \<Rightarrow> pyval \<Rightarrow> pyval \<Rightarrow> pyval \<Rightarrow> bool \<Rightarrow> state \<Rightarrow> pyval result" where
  "get_model env model_fn model_config dataloader seed state_dict strict s =
     (case resolve env Models model_fn s of
        (Inl e, s1) \<Rightarrow> (Inl e, s1)
      | (Inr f, s1) \<Rightarrow>
          (case expand (store s1) model_config of
             Inl e \<Rightarrow> (Inl e, s1)
           | Inr cfg \<Rightarrow>
               if map_of cfg ''seed'' \<noteq> None then (Inl TypeError, s1)
               else
                 (case invoke env f [dataloader] ((''seed'', seed) # cfg) s1 of
                    (Inl e, s2) \<Rightarrow> (Inl e, s2)
                  | (Inr net, s2) \<Rightarrow>
                      if state_dict \<noteq> PNone then
                        (case load_step net state_dict strict s2 of
                           (Inl e, s3) \<Rightarrow> (Inl e, s3)
                         | (Inr r, s3) \<Rightarrow> (Inr net, s3))
                      else (Inr net, s2))))"

text \<open>\<open>get_data(dataset_fn, dataset_config)\<close>.\<close>

definition get_data :: "env \<Rightarrow> pyval \<Rightarrow> pyval \<Rightarrow> state \<Rightarrow> pyval result" where
  "get_data env dataset_fn dataset_config s =
     (case resolve env Datasets dataset_fn s of
        (Inl e, s1) \<Rightarrow> (Inl e, s1)
      | (Inr f, s1) \<Rightarrow>
          (case expand (store s1) dataset_config of
             Inl e \<Rightarrow> (Inl e, s1)
           | Inr cfg \<Rightarrow> invoke env f [] cfg s1))"

text \<open>
  \<open>get_trainer(trainer_fn, trainer_config)\<close>, with \<open>trainer_config=None\<close> the default
  of the source. It prints the configuration, then: a string is resolved and the
  resolved function called at once; any other value is wrapped in a partial object when
  a configuration is given; and the function ends without a \<open>return\<close> otherwise, which
  is \<open>None\<close> in Python.
\<close>

definition get_trainer :: "env \<Rightarrow> pyval \<Rightarrow> pyval \<Rightarrow> state \<Rightarrow> pyval result" where
  "get_trainer env trainer_fn trainer_config s =
     (let s0 = py_print trainer_config s
      in case trainer_fn of
           PStr name \<Rightarrow>
             (case resolve_name env Training name s0 of
                (Inl e, s1) \<Rightarrow> (Inl e, s1)
              | (Inr f, s1) \<Rightarrow>
                  (case expand (store s1) trainer_config of
                     Inl e \<Rightarrow> (Inl e, s1)
                   | Inr cfg \<Rightarrow> invoke env f [] cfg s1))
         | _ \<Rightarrow>
             if trainer_config \<noteq> PNone then
               (case expand (store s0) trainer_config of
                  Inl e \<Rightarrow> (Inl e, s0)
                | Inr cfg \<Rightarrow>
                    (case partial trainer_fn [] cfg of
                       Inl e \<Rightarrow> (Inl e, s0)
                     | Inr p \<Rightarrow> (Inr p, s0)))
             else (Inr PNone, s0))"

text \<open>
  \<open>get_all_parts(dataset_fn, dataset_config, model_fn, model_config, seed, dl_key,
  state_dict, strict, trainer_fn, trainer_config)\<close>, the defaults being \<open>seed=None\<close>,
  \<open>dl_key='train'\<close>, \<open>state_dict=None\<close>, \<open>strict=True\<close>, \<open>trainer_fn=None\<close>,
  \<open>trainer_config=None\<close>.
\<close>

definition get_all_parts ::
  "env \<Rightarrow> pyval \<Rightarrow> pyval \<Rightarrow> pyval \<Rightarrow> pyval \<Rightarrow> pyval \<Rightarrow> pyval \<Rightarrow> pyval \<Rightarrow> bool \<Rightarrow> pyval \<Rightarrow> pyval
     \<Rightarrow> state \<Rightarrow> pyval result" where
  "get_all_parts env dataset_fn dataset_config model_fn model_config seed dl_key state_dict
       strict trainer_fn trainer_config s =
     (case get_data env dataset_fn dataset_config s of
        (Inl e, s1) \<Rightarrow> (Inl e, s1)
      | (Inr dataloaders, s1) \<Rightarrow>
          (case subscript (store s1) dataloaders dl_key of
             Inl e \<Rightarrow> (Inl e, s1)
           | Inr dl \<Rightarrow>
               (case get_model env model_fn model_config dl seed state_dict strict s1 of
                  (Inl e, s2) \<Rightarrow> (Inl e, s2)
                | (Inr model, s2) \<Rightarrow>
                    if trainer_fn \<noteq> PNone then
                      (case get_trainer env trainer_fn trainer_config s2 of
                         (Inl e, s3) \<Rightarrow> (Inl e, s3)
                       | (Inr trainer, s3) \<Rightarrow> (Inr (PTuple [dataloaders, model, trainer]), s3))
                    else (Inr (PTuple [dataloaders, model]), s2))))"

section \<open>Reading traces\<close>

text \<open>The events an operation added to the trace, and the calls among them.\<close>

definition new_events :: "state \<Rightarrow> state \<Rightarrow> event list" where
  "new_events s s' = drop (length (trace s)) (trace s')"

fun is_call :: "event \<Rightarrow> bool" where
  "is_call (Called f args kw) = True"
| "is_call ev = False"

definition calls_of :: "event list \<Rightarrow> event list" where
  "calls_of evs = filter is_call evs"

section \<open>A concrete environment\<close>

text \<open>
  A small world on which the theorems below are instantiated. \<open>PFun 0\<close> builds
  dataloaders: it stores a dictionary at address 10 whose \<open>train\<close> entry holds the
  keyword values it was given. \<open>PFun 1\<close> builds a model at address 20 whose two
  parameters record the positional and the keyword arguments of the call. \<open>PFun 2\<close>
  is a trainer that returns its keyword values. \<open>PFun 5\<close>, the \<open>factory\<close> of the
  \<open>datasets\<close> package, returns the dataloader builder. Every other callable raises, the
  dynamic loader knows \<open>foo.bar.make_loaders\<close> and \<open>baz.make_model\<close> only, and a
  text given to \<open>eval\<close> that is neither a name nor a call of a name is a syntax
  error.
\<close>

definition demo_apply :: "pyval \<Rightarrow> pyval list \<Rightarrow> kwargs \<Rightarrow> store \<Rightarrow> pyval outcome" where
  "demo_apply f args kw st =
     (if f = PFun 0 then
        (Inr (PDict 10),
         st\<lparr>dicts := (dicts st)(10 := [(''train'', PTuple (map snd kw)), (''test'', PNone)])\<rparr>)
      else if f = PFun 1 then
        (Inr (PModule 20),
         st\<lparr>modules := (modules st)(20 := [(''weight'', PTuple args),
                                             (''bias'', PTuple (map snd kw))])\<rparr>)
      else if f = PFun 2 then (Inr (PTuple (map snd kw)), st)
      else if f = PFun 5 then (Inr (PFun 0), st)
      else (Inl (Raised 1), st))"

definition demo_import :: "string \<Rightarrow> string \<Rightarrow> store \<Rightarrow> pyval outcome" where
  "demo_import module_path class_name st =
     (if module_path = ''foo.bar'' \<and> class_name = ''make_loaders'' then (Inr (PFun 0), st)
      else if module_path = ''baz'' \<and> class_name = ''make_model'' then (Inr (PFun 1), st)
      else (Inl (Raised 0), st))"

definition demo_env :: env where
  "demo_env =
     \<lparr>datasets = [''mnist'' \<mapsto> PFun 0, ''factory'' \<mapsto> PFun 5],
      models = [''mlp'' \<mapsto> PFun 1],
      training = [''sgd'' \<mapsto> PFun 2],
      dynamic_import = demo_import,
      apply_fn = demo_apply,
      eval_other = (\<lambda>src st. (Inl SyntaxError, st))\<rparr>"

text \<open>
  The initial store: \<open>{"batch_size": 32}\<close> at address 1, \<open>{"hidden": 64}\<close> at 2, a
  trainer configuration \<open>{"lr": 1}\<close> at 3, at 4 a parameter blob that names
  \<open>weight\<close> and an \<open>extra\<close> parameter but not \<open>bias\<close>, and at 6 a nested
  configuration \<open>{"opt": inner}\<close> whose \<open>inner\<close> is the dictionary \<open>{"lr": 1}\<close> at 5.
\<close>

definition demo_dicts :: "addr \<Rightarrow> kwargs" where
  "demo_dicts a =
     (if a = 1 then [(''batch_size'', PInt 32)]
      else if a = 2 then [(''hidden'', PInt 64)]
      else if a = 3 then [(''lr'', PInt 1)]
      else if a = 4 then [(''weight'', PInt 7), (''extra'', PInt 8)]
      else if a = 5 then [(''lr'', PInt 1)]
      else if a = 6 then [(''opt'', PDict 5)]
      else [])"

definition demo_store :: store where
  "demo_store = \<lparr>dicts = demo_dicts, modules = (\<lambda>a. [])\<rparr>"

definition demo_state :: state where
  "demo_state = \<lparr>store = demo_store, trace = []\<rparr>"

text \<open>
  Two collaborators that mutate what they can reach, as Python callables may.
  \<open>PFun 3\<close> is a closure over the caller's dictionary at address 1:
  \<^verbatim>\<open>def f(**kw): cfg.clear()\<close>.
  \<open>PFun 4\<close> clears the dictionary it is handed under the keyword \<open>opt\<close>:
  \<^verbatim>\<open>def g(opt): opt.clear()\<close>.
\<close>

definition greedy_apply :: "pyval \<Rightarrow> pyval list \<Rightarrow> kwargs \<Rightarrow> store \<Rightarrow> pyval outcome" where
  "greedy_apply f args kw st =
     (if f = PFun 3 then (Inr PNone, st\<lparr>dicts := (dicts st)(1 := [])\<rparr>)
      else if f = PFun 4 then
        (case map_of kw ''opt'' of
           Some (PDict b) \<Rightarrow> (Inr PNone, st\<lparr>dicts := (dicts st)(b := [])\<rparr>)
         | _ \<Rightarrow> (Inl TypeError, st))
      else demo_apply f args kw st)"

definition greedy_env :: env where
  "greedy_env = demo_env\<lparr>apply_fn := greedy_apply\<rparr>"

section \<open>Basic facts\<close>

lemmas name_defs =
  is_identifier_def name_start_def name_char_def reserved_def split_module_name_def
  called_name_def

lemmas step_defs =
  resolve_name_def eval_step_def import_step_def py_eval_def py_print_def invoke_def
  load_step_def

text \<open>Calling a partial object with nothing more is calling its function with the
  keywords it was made with.\<close>

lemma call_partial:
  assumes "partial f [] kw = Inr p"
  shows "call env p [] [] st = call env f [] kw st"
  using assms by (cases f) (auto split: if_splits)

text \<open>A plain name has no dot, so its module path is empty.\<close>

lemma identifier_no_dot: "is_identifier name \<Longrightarrow> CHR ''.'' \<notin> set name"
  by (cases name)
     (auto simp: is_identifier_def name_start_def name_char_def list_all_iff Let_def)

lemma split_no_dot:
  assumes "CHR ''.'' \<notin> set name"
  shows "split_module_name name = ([], name)"
proof -
  have tw: "takeWhile (\<lambda>c. c \<noteq> CHR ''.'') (rev name) = rev name"
    using assms by (intro takeWhile_eq_all_conv[THEN iffD2]) auto
  have dw: "dropWhile (\<lambda>c. c \<noteq> CHR ''.'') (rev name) = []"
    using assms by (intro dropWhile_eq_Nil_conv[THEN iffD2]) auto
  show ?thesis
    unfolding split_module_name_def Let_def tw dw by simp
qed

lemma resolve_name_import:
  "split_module_name name = (mp, cn) \<Longrightarrow> mp \<noteq> [] \<Longrightarrow>
     resolve_name env k name s = import_step env mp cn s"
  by (simp add: resolve_name_def)

lemma resolve_name_identifier:
  assumes "is_identifier name"
  shows "resolve_name env k name s =
     (case namespace env k name of None \<Rightarrow> Inl AttributeError | Some v \<Rightarrow> Inr v,
      s\<lparr>trace := trace s @ [Evaluated (package_prefix k @ name)]\<rparr>)"
  using assms split_no_dot[OF identifier_no_dot[OF assms]]
  by (simp add: resolve_name_def eval_step_def py_eval_def split: option.splits)

subsection \<open>Every step appends to the trace\<close>

lemma import_step_trace:
  "import_step env mp cn s = (r, s') \<Longrightarrow> trace s' = trace s @ [Imported mp cn]"
  by (auto simp: import_step_def split: prod.splits)

lemma eval_step_trace:
  "eval_step env k name s = (r, s') \<Longrightarrow>
     trace s' = trace s @ [Evaluated (package_prefix k @ name)]"
  by (auto simp: eval_step_def split: prod.splits)

lemma invoke_trace:
  "invoke env f args kw s = (r, s') \<Longrightarrow> trace s' = trace s @ [Called f args kw]"
  by (auto simp: invoke_def split: prod.splits)

lemma load_step_trace:
  "load_step net sd strict s = (r, s') \<Longrightarrow> trace s' = trace s @ [Loaded net sd strict]"
  by (auto simp: load_step_def split: prod.splits)

lemma import_step_snd: "trace (snd (import_step env mp cn s)) = trace s @ [Imported mp cn]"
  by (simp add: import_step_def split: prod.splits)

lemma invoke_extends: "\<exists>rest. trace (snd (invoke env f args kw s)) = trace s @ rest"
  by (simp add: invoke_def split: prod.splits)

lemma resolve_name_trace:
  "resolve_name env k name s = (r, s') \<Longrightarrow>
     \<exists>ev. trace s' = trace s @ [ev] \<and> \<not> is_call ev"
  by (auto simp: resolve_name_def split: prod.splits if_splits
           dest: import_step_trace eval_step_trace)

lemma resolve_trace:
  "resolve env k fn s = (r, s') \<Longrightarrow> \<exists>evs. trace s' = trace s @ evs \<and> calls_of evs = []"
  by (cases fn) (auto simp: resolve_def calls_of_def dest!: resolve_name_trace)

lemma new_events_append: "trace s' = trace s @ evs \<Longrightarrow> new_events s s' = evs"
  by (simp add: new_events_def)

lemma take_new_events:
  "trace s' = (trace s @ evs) @ rest \<Longrightarrow> take (length evs) (new_events s s') = evs"
  by (simp add: new_events_def)

lemma get_data_extends:
  "\<exists>rest. trace (snd (get_data env fn cfg s)) = trace (snd (resolve env Datasets fn s)) @ rest"
  using invoke_extends
  by (auto simp: get_data_def split: prod.splits sum.splits)

lemma get_model_extends:
  "\<exists>rest. trace (snd (get_model env fn cfg dl seed sd strict s)) =
     trace (snd (resolve env Models fn s)) @ rest"
proof -
  obtain r s1 where rs: "resolve env Models fn s = (r, s1)"
    by (cases "resolve env Models fn s")
  show ?thesis
  proof (cases r)
    case (Inl e)
    with rs show ?thesis by (simp add: get_model_def)
  next
    case (Inr f)
    show ?thesis
    proof (cases "expand (store s1) cfg")
      case (Inl e)
      with rs Inr show ?thesis by (simp add: get_model_def)
    next
      case cfg: (Inr kw)
      obtain r2 s2 where i: "invoke env f [dl] ((''seed'', seed) # kw) s1 = (r2, s2)"
        by (cases "invoke env f [dl] ((''seed'', seed) # kw) s1")
      from invoke_trace[OF i]
      have t2: "trace s2 = trace s1 @ [Called f [dl] ((''seed'', seed) # kw)]" .
      obtain r3 s3 where l: "load_step (projr r2) sd strict s2 = (r3, s3)"
        by (cases "load_step (projr r2) sd strict s2")
      from load_step_trace[OF l]
      have t3: "trace s3 = trace s2 @ [Loaded (projr r2) sd strict]" .
      show ?thesis using rs Inr cfg i l t2 t3
        by (auto simp: get_model_def split: sum.splits)
    qed
  qed
qed

lemma get_trainer_extends:
  "\<exists>rest. trace (snd (get_trainer env (PStr name) cfg s)) =
     trace (snd (resolve_name env Training name (py_print cfg s))) @ rest"
  using invoke_extends
  by (auto simp: get_trainer_def Let_def split: prod.splits sum.splits)

lemma calls_of_append: "calls_of (xs @ ys) = calls_of xs @ calls_of ys"
  by (simp add: calls_of_def)

lemma new_events_trans:
  "trace s1 = trace s @ evs \<Longrightarrow> trace s2 = trace s1 @ evs' \<Longrightarrow> new_events s s2 = evs @ evs'"
  by (simp add: new_events_def)

subsection \<open>What the steps leave alone\<close>

lemma call_keeps:
  assumes "\<And>f args kw st. dicts (snd (apply_fn env f args kw st)) a = dicts st a"
  shows "dicts (snd (call env f args kw st)) a = dicts st a"
  by (induction f arbitrary: args kw) (simp_all add: assms)

lemma invoke_keeps:
  assumes "\<And>f args kw st. dicts (snd (apply_fn env f args kw st)) a = dicts st a"
  shows "dicts (store (snd (invoke env f args kw s))) a = dicts (store s) a"
  using call_keeps[of env a f args kw "store s", OF assms]
  by (auto simp: invoke_def split: prod.splits)

lemma load_step_keeps:
  "load_step net sd strict s = (r, s') \<Longrightarrow> dicts (store s') a = dicts (store s) a"
  by (auto simp: load_step_def load_state_dict_def Let_def
           split: prod.splits pyval.splits if_splits)

lemma py_eval_keeps:
  assumes "\<And>f args kw st. dicts (snd (apply_fn env f args kw st)) a = dicts st a"
    and "\<And>src st. dicts (snd (eval_other env src st)) a = dicts st a"
  shows "dicts (snd (py_eval env k name st)) a = dicts st a"
  using assms(2)[of "package_prefix k @ name" st] call_keeps[of env a _ "[]" "[]" st, OF assms(1)]
  by (simp add: py_eval_def split: option.splits)

lemma resolve_name_keeps:
  assumes "\<And>mp cn st. dicts (snd (dynamic_import env mp cn st)) a = dicts st a"
    and "\<And>f args kw st. dicts (snd (apply_fn env f args kw st)) a = dicts st a"
    and "\<And>src st. dicts (snd (eval_other env src st)) a = dicts st a"
    and "resolve_name env k name s = (r, s')"
  shows "dicts (store s') a = dicts (store s) a"
proof -
  obtain mp cn where sp: "split_module_name name = (mp, cn)"
    by (cases "split_module_name name")
  show ?thesis
  proof (cases "mp = []")
    case False
    with sp assms(4) assms(1)[of mp cn "store s"] show ?thesis
      by (auto simp: resolve_name_def import_step_def split: prod.splits)
  next
    case True
    with sp assms(4) py_eval_keeps[of env a k name "store s", OF assms(2,3)] show ?thesis
      by (auto simp: resolve_name_def eval_step_def split: prod.splits)
  qed
qed

lemma resolve_keeps:
  assumes "\<And>mp cn st. dicts (snd (dynamic_import env mp cn st)) a = dicts st a"
    and "\<And>f args kw st. dicts (snd (apply_fn env f args kw st)) a = dicts st a"
    and "\<And>src st. dicts (snd (eval_other env src st)) a = dicts st a"
    and "resolve env k fn s = (r, s')"
  shows "dicts (store s') a = dicts (store s) a"
  using assms(4) resolve_name_keeps[OF assms(1,2,3)]
  by (cases fn) (auto simp: resolve_def)

lemma get_data_keeps:
  assumes imp: "\<And>mp cn st. dicts (snd (dynamic_import env mp cn st)) a = dicts st a"
    and app: "\<And>f args kw st. dicts (snd (apply_fn env f args kw st)) a = dicts st a"
    and ev: "\<And>src st. dicts (snd (eval_other env src st)) a = dicts st a"
  shows "dicts (store (snd (get_data env dataset_fn dataset_config s))) a = dicts (store s) a"
proof -
  obtain r s1 where rs: "resolve env Datasets dataset_fn s = (r, s1)"
    by (cases "resolve env Datasets dataset_fn s")
  note k1 = resolve_keeps[OF imp app ev rs]
  show ?thesis
    using rs k1 invoke_keeps[OF app]
    by (auto simp: get_data_def split: sum.splits prod.splits)
qed

lemma get_model_keeps:
  assumes imp: "\<And>mp cn st. dicts (snd (dynamic_import env mp cn st)) a = dicts st a"
    and app: "\<And>f args kw st. dicts (snd (apply_fn env f args kw st)) a = dicts st a"
    and ev: "\<And>src st. dicts (snd (eval_other env src st)) a = dicts st a"
  shows "dicts (store (snd (get_model env model_fn model_config dl seed sd strict s))) a =
         dicts (store s) a"
proof -
  obtain r s1 where rs: "resolve env Models model_fn s = (r, s1)"
    by (cases "resolve env Models model_fn s")
  note k1 = resolve_keeps[OF imp app ev rs]
  show ?thesis
  proof (cases r)
    case (Inl e)
    with rs k1 show ?thesis by (simp add: get_model_def)
  next
    case (Inr f)
    show ?thesis
    proof (cases "expand (store s1) model_config")
      case (Inl e)
      with rs Inr k1 show ?thesis by (simp add: get_model_def)
    next
      case cfg: (Inr kw)
      obtain r2 s2 where i: "invoke env f [dl] ((''seed'', seed) # kw) s1 = (r2, s2)"
        by (cases "invoke env f [dl] ((''seed'', seed) # kw) s1")
      from invoke_keeps[OF app, of f "[dl]" "(''seed'', seed) # kw" s1] i
      have k2: "dicts (store s2) a = dicts (store s1) a" by simp
      obtain r3 s3 where l: "load_step (projr r2) sd strict s2 = (r3, s3)"
        by (cases "load_step (projr r2) sd strict s2")
      note k3 = load_step_keeps[OF l, of a]
      show ?thesis using rs Inr cfg i l k1 k2 k3
        by (auto simp: get_model_def split: sum.splits)
    qed
  qed
qed

lemma get_trainer_keeps:
  assumes imp: "\<And>mp cn st. dicts (snd (dynamic_import env mp cn st)) a = dicts st a"
    and app: "\<And>f args kw st. dicts (snd (apply_fn env f args kw st)) a = dicts st a"
    and ev: "\<And>src st. dicts (snd (eval_other env src st)) a = dicts st a"
  shows "dicts (store (snd (get_trainer env trainer_fn trainer_config s))) a = dicts (store s) a"
proof (cases trainer_fn)
  case (PStr name)
  obtain r s1 where rs: "resolve_name env Training name (py_print trainer_config s) = (r, s1)"
    by (cases "resolve_name env Training name (py_print trainer_config s)")
  from resolve_name_keeps[OF imp app ev rs]
  have k1: "dicts (store s1) a = dicts (store s) a" by (simp add: py_print_def)
  show ?thesis
    using PStr rs k1 invoke_keeps[OF app]
    by (auto simp: get_trainer_def Let_def split: sum.splits prod.splits)
qed (auto simp: get_trainer_def Let_def py_print_def split: sum.splits)

lemma get_all_parts_keeps:
  assumes imp: "\<And>mp cn st. dicts (snd (dynamic_import env mp cn st)) a = dicts st a"
    and app: "\<And>f args kw st. dicts (snd (apply_fn env f args kw st)) a = dicts st a"
    and ev: "\<And>src st. dicts (snd (eval_other env src st)) a = dicts st a"
  shows "dicts (store (snd (get_all_parts env dataset_fn dataset_config model_fn model_config
            seed dl_key state_dict strict trainer_fn trainer_config s))) a = dicts (store s) a"
proof -
  note d = get_data_keeps[OF imp app ev, of dataset_fn dataset_config s]
  obtain r1 s1 where g1: "get_data env dataset_fn dataset_config s = (r1, s1)"
    by (cases "get_data env dataset_fn dataset_config s")
  with d have k1: "dicts (store s1) a = dicts (store s) a" by simp
  show ?thesis
  proof (cases r1)
    case (Inl e)
    with g1 k1 show ?thesis by (simp add: get_all_parts_def)
  next
    case (Inr dls)
    show ?thesis
    proof (cases "subscript (store s1) dls dl_key")
      case (Inl e)
      with g1 Inr k1 show ?thesis by (simp add: get_all_parts_def)
    next
      case sub: (Inr dl)
      obtain r2 s2 where g2: "get_model env model_fn model_config dl seed state_dict strict s1 = (r2, s2)"
        by (cases "get_model env model_fn model_config dl seed state_dict strict s1")
      from get_model_keeps[OF imp app ev, of model_fn model_config dl seed state_dict strict s1] g2
      have k2: "dicts (store s2) a = dicts (store s1) a" by simp
      obtain r3 s3 where g3: "get_trainer env trainer_fn trainer_config s2 = (r3, s3)"
        by (cases "get_trainer env trainer_fn trainer_config s2")
      from get_trainer_keeps[OF imp app ev, of trainer_fn trainer_config s2] g3
      have k3: "dicts (store s3) a = dicts (store s2) a" by simp
      show ?thesis using g1 Inr sub g2 g3 k1 k2 k3
        by (auto simp: get_all_parts_def split: sum.splits)
    qed
  qed
qed

subsection \<open>The concrete environment, evaluated\<close>

lemma demo_resolve_mlp:
  "resolve demo_env Models (PStr ''mlp'') s =
     (Inr (PFun 1), s\<lparr>trace := trace s @ [Evaluated ''models.mlp'']\<rparr>)"
proof -
  have "is_identifier ''mlp''" by (simp add: name_defs)
  from resolve_name_identifier[OF this, of demo_env Models s] show ?thesis
    by (simp add: resolve_def demo_env_def)
qed

lemma demo_resolve_mnist:
  "resolve demo_env Datasets (PStr ''mnist'') s =
     (Inr (PFun 0), s\<lparr>trace := trace s @ [Evaluated ''datasets.mnist'']\<rparr>)"
proof -
  have "is_identifier ''mnist''" by (simp add: name_defs)
  from resolve_name_identifier[OF this, of demo_env Datasets s] show ?thesis
    by (simp add: resolve_def demo_env_def)
qed

lemma demo_resolve_sgd:
  "resolve_name demo_env Training ''sgd'' s =
     (Inr (PFun 2), s\<lparr>trace := trace s @ [Evaluated ''training.sgd'']\<rparr>)"
proof -
  have "is_identifier ''sgd''" by (simp add: name_defs)
  from resolve_name_identifier[OF this, of demo_env Training s] show ?thesis
    by (simp add: demo_env_def)
qed

lemma demo_apply_fn: "apply_fn demo_env = demo_apply"
  by (simp add: demo_env_def)

lemma demo_dicts_2: "dicts (store demo_state) 2 = [(''hidden'', PInt 64)]"
  by (simp add: demo_state_def demo_store_def demo_dicts_def)

lemma demo_get_data:
  "get_data demo_env (PStr ''mnist'') (PDict 1) demo_state =
     (Inr (PDict 10),
      \<lparr>store = demo_store\<lparr>dicts := demo_dicts(10 := [(''train'', PTuple [PInt 32]), (''test'', PNone)])\<rparr>,
       trace = [Evaluated ''datasets.mnist'', Called (PFun 0) [] [(''batch_size'', PInt 32)]]\<rparr>)"
  by (simp add: get_data_def demo_resolve_mnist invoke_def demo_apply_fn demo_apply_def
        demo_state_def demo_store_def)
     (simp add: demo_dicts_def)

lemma demo_get_model:
  assumes "dicts (store s) 2 = [(''hidden'', PInt 64)]"
  shows "get_model demo_env (PStr ''mlp'') (PDict 2) dl seed PNone strict s =
     (Inr (PModule 20),
      \<lparr>store = (store s)\<lparr>modules := (modules (store s))
                 (20 := [(''weight'', PTuple [dl]), (''bias'', PTuple [seed, PInt 64])])\<rparr>,
       trace = trace s @ [Evaluated ''models.mlp'',
                          Called (PFun 1) [dl] [(''seed'', seed), (''hidden'', PInt 64)]]\<rparr>)"
  using assms
  by (simp add: get_model_def demo_resolve_mlp invoke_def demo_apply_fn demo_apply_def)

lemma demo_get_trainer:
  assumes "dicts (store s) 3 = [(''lr'', PInt 1)]"
  shows "get_trainer demo_env (PStr ''sgd'') (PDict 3) s =
     (Inr (PTuple [PInt 1]),
      \<lparr>store = store s,
       trace = trace s @ [Printed (PDict 3), Evaluated ''training.sgd'',
                          Called (PFun 2) [] [(''lr'', PInt 1)]]\<rparr>)"
  using assms
  by (simp add: get_trainer_def Let_def demo_resolve_sgd py_print_def invoke_def
        demo_apply_fn demo_apply_def)

lemma demo_get_trainer_none:
  "get_trainer demo_env (PStr ''sgd'') PNone s =
     (Inl TypeError,
      \<lparr>store = store s, trace = trace s @ [Printed PNone, Evaluated ''training.sgd'']\<rparr>)"
  by (simp add: get_trainer_def Let_def demo_resolve_sgd py_print_def)

lemma demo_resolve_absent:
  "resolve demo_env k (PStr ''nothing'') s =
     (Inl AttributeError, s\<lparr>trace := trace s @ [Evaluated (package_prefix k @ ''nothing'')]\<rparr>)"
proof -
  have "is_identifier ''nothing''" by (simp add: name_defs)
  from resolve_name_identifier[OF this, of demo_env k s] show ?thesis
    by (cases k) (simp_all add: resolve_def demo_env_def)
qed

section \<open>Resolution of string identifiers\<close>

text \<open>
  C3, as amended. Let \<open>(mp, cn)\<close> be the split of a string identifier. When the
  module path \<open>mp\<close> is not empty, resolution is the dynamic loader called with
  exactly \<open>mp\<close> and \<open>cn\<close>, and this import is the first thing \<open>get_data\<close> and
  \<open>get_model\<close> do (the first after its \<open>print\<close> for \<open>get_trainer\<close>). When the
  identifier is a plain name, its module path is empty and resolution is the lookup of
  that name in the package of the kind: \<open>datasets\<close> for \<open>get_data\<close>, \<open>models\<close>
  for \<open>get_model\<close>, \<open>training\<close> for \<open>get_trainer\<close>; a name the package does not
  have makes the function fail with \<open>AttributeError\<close>. For every other string with
  an empty module path, resolution is the evaluation, as a Python expression, of the
  package prefix followed by the whole string.
\<close>

theorem string_resolution:
  assumes "split_module_name name = (mp, cn)"
  shows "(mp \<noteq> [] \<longrightarrow>
            resolve env k (PStr name) s = import_step env mp cn s
          \<and> take 1 (new_events s (snd (get_data env (PStr name) dcfg s))) = [Imported mp cn]
          \<and> take 1 (new_events s (snd (get_model env (PStr name) mcfg dl seed sd strict s))) =
              [Imported mp cn]
          \<and> take 2 (new_events s (snd (get_trainer env (PStr name) tcfg s))) =
              [Printed tcfg, Imported mp cn])
       \<and> (is_identifier name \<longrightarrow>
            mp = []
          \<and> resolve env k (PStr name) s =
              (case namespace env k name of None \<Rightarrow> Inl AttributeError | Some v \<Rightarrow> Inr v,
               s\<lparr>trace := trace s @ [Evaluated (package_prefix k @ name)]\<rparr>)
          \<and> take 1 (new_events s (snd (get_data env (PStr name) dcfg s))) =
              [Evaluated (''datasets.'' @ name)]
          \<and> take 1 (new_events s (snd (get_model env (PStr name) mcfg dl seed sd strict s))) =
              [Evaluated (''models.'' @ name)]
          \<and> take 2 (new_events s (snd (get_trainer env (PStr name) tcfg s))) =
              [Printed tcfg, Evaluated (''training.'' @ name)]
          \<and> (datasets env name = None \<longrightarrow>
                fst (get_data env (PStr name) dcfg s) = Inl AttributeError)
          \<and> (models env name = None \<longrightarrow>
                fst (get_model env (PStr name) mcfg dl seed sd strict s) = Inl AttributeError)
          \<and> (training env name = None \<longrightarrow>
                fst (get_trainer env (PStr name) tcfg s) = Inl AttributeError))
       \<and> (mp = [] \<longrightarrow> resolve env k (PStr name) s = eval_step env k name s)"
proof (intro conjI impI)
  assume mp: "mp \<noteq> []"
  have r: "\<And>k s. resolve_name env k name s = import_step env mp cn s"
    using resolve_name_import[OF assms mp] .
  show "resolve env k (PStr name) s = import_step env mp cn s"
    by (simp add: resolve_def r)
  from get_data_extends[of env "PStr name" dcfg s]
  obtain rest where "trace (snd (get_data env (PStr name) dcfg s)) = (trace s @ [Imported mp cn]) @ rest"
    by (auto simp: resolve_def r import_step_snd)
  from take_new_events[OF this]
  show "take 1 (new_events s (snd (get_data env (PStr name) dcfg s))) = [Imported mp cn]" by simp
  from get_model_extends[of env "PStr name" mcfg dl seed sd strict s]
  obtain rest where "trace (snd (get_model env (PStr name) mcfg dl seed sd strict s)) =
      (trace s @ [Imported mp cn]) @ rest"
    by (auto simp: resolve_def r import_step_snd)
  from take_new_events[OF this]
  show "take 1 (new_events s (snd (get_model env (PStr name) mcfg dl seed sd strict s))) = [Imported mp cn]"
    by simp
  from get_trainer_extends[of env name tcfg s]
  obtain rest where "trace (snd (get_trainer env (PStr name) tcfg s)) =
      (trace s @ [Printed tcfg, Imported mp cn]) @ rest"
    by (auto simp: r import_step_snd py_print_def)
  from take_new_events[OF this]
  show "take 2 (new_events s (snd (get_trainer env (PStr name) tcfg s))) = [Printed tcfg, Imported mp cn]"
    by (simp add: numeral_2_eq_2)
next
  assume ident: "is_identifier name"
  from split_no_dot[OF identifier_no_dot[OF ident]] assms show "mp = []" by simp
  note r = resolve_name_identifier[OF ident]
  show "resolve env k (PStr name) s =
          (case namespace env k name of None \<Rightarrow> Inl AttributeError | Some v \<Rightarrow> Inr v,
           s\<lparr>trace := trace s @ [Evaluated (package_prefix k @ name)]\<rparr>)"
    by (simp add: resolve_def r)
  from get_data_extends[of env "PStr name" dcfg s]
  obtain rest where "trace (snd (get_data env (PStr name) dcfg s)) =
      (trace s @ [Evaluated (''datasets.'' @ name)]) @ rest"
    by (auto simp: resolve_def r)
  from take_new_events[OF this]
  show "take 1 (new_events s (snd (get_data env (PStr name) dcfg s))) = [Evaluated (''datasets.'' @ name)]"
    by simp
  from get_model_extends[of env "PStr name" mcfg dl seed sd strict s]
  obtain rest where "trace (snd (get_model env (PStr name) mcfg dl seed sd strict s)) =
      (trace s @ [Evaluated (''models.'' @ name)]) @ rest"
    by (auto simp: resolve_def r)
  from take_new_events[OF this]
  show "take 1 (new_events s (snd (get_model env (PStr name) mcfg dl seed sd strict s))) =
      [Evaluated (''models.'' @ name)]"
    by simp
  from get_trainer_extends[of env name tcfg s]
  obtain rest where "trace (snd (get_trainer env (PStr name) tcfg s)) =
      (trace s @ [Printed tcfg, Evaluated (''training.'' @ name)]) @ rest"
    by (auto simp: r py_print_def)
  from take_new_events[OF this]
  show "take 2 (new_events s (snd (get_trainer env (PStr name) tcfg s))) =
      [Printed tcfg, Evaluated (''training.'' @ name)]"
    by (simp add: numeral_2_eq_2)
  show "fst (get_data env (PStr name) dcfg s) = Inl AttributeError" if "datasets env name = None"
    using that by (simp add: get_data_def resolve_def r)
  show "fst (get_model env (PStr name) mcfg dl seed sd strict s) = Inl AttributeError"
    if "models env name = None"
    using that by (simp add: get_model_def resolve_def r)
  show "fst (get_trainer env (PStr name) tcfg s) = Inl AttributeError" if "training env name = None"
    using that by (simp add: get_trainer_def Let_def r)
next
  assume "mp = []"
  with assms show "resolve env k (PStr name) s = eval_step env k name s"
    by (simp add: resolve_def resolve_name_def)
qed

theorem string_resolution_witness:
  "split_module_name ''foo.bar.make_loaders'' = (''foo.bar'', ''make_loaders'')
   \<and> resolve demo_env Datasets (PStr ''foo.bar.make_loaders'') demo_state =
       (Inr (PFun 0), \<lparr>store = demo_store, trace = [Imported ''foo.bar'' ''make_loaders'']\<rparr>)
   \<and> take 2 (new_events demo_state
         (snd (get_trainer demo_env (PStr ''foo.bar.make_loaders'') (PDict 3) demo_state))) =
       [Printed (PDict 3), Imported ''foo.bar'' ''make_loaders'']
   \<and> is_identifier ''mlp''
   \<and> resolve demo_env Models (PStr ''mlp'') demo_state =
       (Inr (PFun 1), \<lparr>store = demo_store, trace = [Evaluated ''models.mlp'']\<rparr>)
   \<and> is_identifier ''adam'' \<and> training demo_env ''adam'' = None
   \<and> fst (get_trainer demo_env (PStr ''adam'') (PDict 3) demo_state) = Inl AttributeError
   \<and> split_module_name ''no such'' = ([], ''no such'')
   \<and> resolve demo_env Datasets (PStr ''no such'') demo_state =
       (Inl SyntaxError, \<lparr>store = demo_store, trace = [Evaluated ''datasets.no such'']\<rparr>)"
proof -
  have sp: "split_module_name ''foo.bar.make_loaders'' = (''foo.bar'', ''make_loaders'')"
    by (simp add: split_module_name_def)
  have ne: "''foo.bar'' \<noteq> []" by simp
  have imp: "import_step demo_env ''foo.bar'' ''make_loaders'' demo_state =
       (Inr (PFun 0), \<lparr>store = demo_store, trace = [Imported ''foo.bar'' ''make_loaders'']\<rparr>)"
    by (simp add: import_step_def demo_env_def demo_import_def demo_state_def)
  have id1: "is_identifier ''mlp''" by (simp add: name_defs)
  have id2: "is_identifier ''adam''" by (simp add: name_defs)
  have ns1: "models demo_env ''mlp'' = Some (PFun 1)" by (simp add: demo_env_def)
  have ns2: "training demo_env ''adam'' = None" by (simp add: demo_env_def)
  obtain mp1 cn1 where sp1: "split_module_name ''mlp'' = (mp1, cn1)" by (cases "split_module_name ''mlp''")
  obtain mp2 cn2 where sp2: "split_module_name ''adam'' = (mp2, cn2)" by (cases "split_module_name ''adam''")
  note a = string_resolution[OF sp, of demo_env Datasets demo_state PNone PNone PNone PNone PNone True "PDict 3"]
  note b = string_resolution[OF sp1, of demo_env Models demo_state PNone PNone PNone PNone PNone True PNone]
  note c = string_resolution[OF sp2, of demo_env Training demo_state PNone PNone PNone PNone PNone True "PDict 3"]
  from a ne imp have 1: "resolve demo_env Datasets (PStr ''foo.bar.make_loaders'') demo_state =
       (Inr (PFun 0), \<lparr>store = demo_store, trace = [Imported ''foo.bar'' ''make_loaders'']\<rparr>)"
    by simp
  from a ne have 2: "take 2 (new_events demo_state
         (snd (get_trainer demo_env (PStr ''foo.bar.make_loaders'') (PDict 3) demo_state))) =
       [Printed (PDict 3), Imported ''foo.bar'' ''make_loaders'']"
    by blast
  from b id1 have "resolve demo_env Models (PStr ''mlp'') demo_state =
      (case namespace demo_env Models ''mlp'' of None \<Rightarrow> Inl AttributeError | Some v \<Rightarrow> Inr v,
       demo_state\<lparr>trace := trace demo_state @ [Evaluated (package_prefix Models @ ''mlp'')]\<rparr>)"
    by blast
  then have 3: "resolve demo_env Models (PStr ''mlp'') demo_state =
       (Inr (PFun 1), \<lparr>store = demo_store, trace = [Evaluated ''models.mlp'']\<rparr>)"
    by (simp add: ns1 demo_state_def)
  from c id2 ns2 have 4: "fst (get_trainer demo_env (PStr ''adam'') (PDict 3) demo_state) = Inl AttributeError"
    by blast
  have sp3: "split_module_name ''no such'' = ([], ''no such'')"
    by (simp add: split_module_name_def)
  have ev: "eval_step demo_env Datasets ''no such'' demo_state =
       (Inl SyntaxError, \<lparr>store = demo_store, trace = [Evaluated ''datasets.no such'']\<rparr>)"
    by (simp add: eval_step_def py_eval_def name_defs demo_env_def demo_state_def)
  note d = string_resolution[OF sp3, of demo_env Datasets demo_state PNone PNone PNone PNone PNone
      True PNone]
  from d ev have 5: "resolve demo_env Datasets (PStr ''no such'') demo_state =
       (Inl SyntaxError, \<lparr>store = demo_store, trace = [Evaluated ''datasets.no such'']\<rparr>)"
    by simp
  from sp 1 2 id1 3 id2 ns2 4 sp3 5 show ?thesis by blast
qed

text \<open>
  The lookup does not hold for every string with an empty module path, since the source
  hands the string to \<open>eval\<close>. The string \<open>factory()\<close> has no dot, so its module
  path is empty and its symbol name is \<open>factory()\<close>, which the \<open>datasets\<close> package
  does not have; yet resolution does not fail: it calls \<open>datasets.factory\<close> and takes
  what that returns, and \<open>get_data\<close> goes on to build the dataloaders with it.
\<close>

theorem string_resolution_evaluates:
  "split_module_name ''factory()'' = ([], ''factory()'')
   \<and> datasets demo_env ''factory()'' = None
   \<and> resolve demo_env Datasets (PStr ''factory()'') demo_state =
       (Inr (PFun 0), \<lparr>store = demo_store, trace = [Evaluated ''datasets.factory()'']\<rparr>)
   \<and> fst (get_data demo_env (PStr ''factory()'') (PDict 1) demo_state) = Inr (PDict 10)"
proof -
  have sp: "split_module_name ''factory()'' = ([], ''factory()'')"
    by (simp add: split_module_name_def)
  have ns: "datasets demo_env ''factory()'' = None"
    by (simp add: demo_env_def)
  have ev: "py_eval demo_env Datasets ''factory()'' demo_store = (Inr (PFun 0), demo_store)"
    by (simp add: py_eval_def name_defs demo_env_def demo_apply_def)
  have r: "resolve demo_env Datasets (PStr ''factory()'') demo_state =
       (Inr (PFun 0), \<lparr>store = demo_store, trace = [Evaluated ''datasets.factory()'']\<rparr>)"
    by (simp add: resolve_def resolve_name_def sp eval_step_def ev demo_state_def)
  have g: "fst (get_data demo_env (PStr ''factory()'') (PDict 1) demo_state) = Inr (PDict 10)"
    by (simp add: get_data_def r invoke_def demo_apply_fn demo_apply_def demo_store_def
          demo_dicts_def)
  from sp ns r g show ?thesis by simp
qed

section \<open>Model resolution\<close>

text \<open>
  C4. In every run of \<open>get_model\<close> the calls it makes once the builder is resolved
  are: none, when resolution fails, the configuration is not a mapping or it has a
  \<open>seed\<close> key of its own (the call expression raises before the builder is entered);
  and otherwise exactly one, of the resolved builder, with the dataloader as its only
  positional argument and with \<open>seed\<close> followed by the items of the configuration as
  keywords. The dataloader is not among the keywords unless the configuration itself
  holds it. Without a state dictionary, what \<open>get_model\<close> returns is the outcome of
  that call.
\<close>

theorem get_model_calling_convention:
  "calls_of (new_events s (snd (get_model env model_fn model_config dataloader seed state_dict strict s))) =
     (case resolve env Models model_fn s of
        (Inl e, s1) \<Rightarrow> []
      | (Inr f, s1) \<Rightarrow>
          (case expand (store s1) model_config of
             Inl e \<Rightarrow> []
           | Inr cfg \<Rightarrow>
               if map_of cfg ''seed'' \<noteq> None then []
               else [Called f [dataloader] ((''seed'', seed) # cfg)]))
   \<and> (\<forall>f s1 cfg. resolve env Models model_fn s = (Inr f, s1)
          \<and> expand (store s1) model_config = Inr cfg \<and> map_of cfg ''seed'' = None
        \<longrightarrow> get_model env model_fn model_config dataloader seed PNone strict s =
              invoke env f [dataloader] ((''seed'', seed) # cfg) s1)"
proof (intro conjI allI impI)
  obtain r s1 where rs: "resolve env Models model_fn s = (r, s1)"
    by (cases "resolve env Models model_fn s")
  from resolve_trace[OF rs] obtain evs where
    evs: "trace s1 = trace s @ evs" "calls_of evs = []" by blast
  have n1: "calls_of (new_events s s1) = []"
    using new_events_append[OF evs(1)] evs(2) by simp
  show "calls_of (new_events s (snd (get_model env model_fn model_config dataloader seed state_dict strict s))) =
     (case resolve env Models model_fn s of
        (Inl e, s1) \<Rightarrow> []
      | (Inr f, s1) \<Rightarrow>
          (case expand (store s1) model_config of
             Inl e \<Rightarrow> []
           | Inr cfg \<Rightarrow>
               if map_of cfg ''seed'' \<noteq> None then []
               else [Called f [dataloader] ((''seed'', seed) # cfg)]))"
  proof (cases r)
    case (Inl e)
    with rs n1 show ?thesis by (simp add: get_model_def)
  next
    case (Inr f)
    show ?thesis
    proof (cases "expand (store s1) model_config")
      case (Inl e)
      with rs Inr n1 show ?thesis by (simp add: get_model_def)
    next
      case cfg: (Inr kw)
      show ?thesis
      proof (cases "map_of kw ''seed'' = None")
        case False
        with rs Inr cfg n1 show ?thesis by (auto simp: get_model_def)
      next
        case True
        obtain r2 s2 where i: "invoke env f [dataloader] ((''seed'', seed) # kw) s1 = (r2, s2)"
          by (cases "invoke env f [dataloader] ((''seed'', seed) # kw) s1")
        from invoke_trace[OF i]
        have t2: "trace s2 = trace s1 @ [Called f [dataloader] ((''seed'', seed) # kw)]" .
        have n2: "calls_of (new_events s s2) = [Called f [dataloader] ((''seed'', seed) # kw)]"
          using new_events_trans[OF evs(1) t2] evs(2) by (simp add: calls_of_append) (simp add: calls_of_def)
        obtain r3 s3 where l: "load_step (projr r2) state_dict strict s2 = (r3, s3)"
          by (cases "load_step (projr r2) state_dict strict s2")
        from load_step_trace[OF l]
        have t3: "trace s3 = trace s2 @ [Loaded (projr r2) state_dict strict]" .
        have "trace s3 = trace s @ (evs @ [Called f [dataloader] ((''seed'', seed) # kw)] @ [Loaded (projr r2) state_dict strict])"
          using evs(1) t2 t3 by simp
        from new_events_append[OF this]
        have n3: "calls_of (new_events s s3) = [Called f [dataloader] ((''seed'', seed) # kw)]"
          using evs(2) by (simp add: calls_of_append) (simp add: calls_of_def)
        show ?thesis using rs Inr cfg True i l n2 n3
          by (auto simp: get_model_def split: sum.splits)
      qed
    qed
  qed
next
  fix f s1 cfg
  assume "resolve env Models model_fn s = (Inr f, s1)
          \<and> expand (store s1) model_config = Inr cfg \<and> map_of cfg ''seed'' = None"
  then show "get_model env model_fn model_config dataloader seed PNone strict s =
              invoke env f [dataloader] ((''seed'', seed) # cfg) s1"
    by (auto simp: get_model_def split: prod.splits sum.splits)
qed

theorem get_model_calling_convention_witness:
  "calls_of (new_events demo_state
      (snd (get_model demo_env (PStr ''mlp'') (PDict 2) (PInt 9) (PInt 5) PNone True demo_state))) =
     [Called (PFun 1) [PInt 9] [(''seed'', PInt 5), (''hidden'', PInt 64)]]
   \<and> modules (store (snd (get_model demo_env (PStr ''mlp'') (PDict 2) (PInt 9) (PInt 5) PNone True
        demo_state))) 20 =
     [(''weight'', PTuple [PInt 9]), (''bias'', PTuple [PInt 5, PInt 64])]"
proof -
  let ?s1 = "demo_state\<lparr>trace := trace demo_state @ [Evaluated ''models.mlp'']\<rparr>"
  have e: "expand (store ?s1) (PDict 2) = Inr [(''hidden'', PInt 64)]"
    by (simp add: demo_state_def demo_store_def demo_dicts_def)
  have m: "map_of [(''hidden'', PInt 64)] ''seed'' = None" by simp
  note t = get_model_calling_convention[of demo_state demo_env "PStr ''mlp''" "PDict 2" "PInt 9"
      "PInt 5" PNone True]
  from t[THEN conjunct1] have 1: "calls_of (new_events demo_state
      (snd (get_model demo_env (PStr ''mlp'') (PDict 2) (PInt 9) (PInt 5) PNone True demo_state))) =
     [Called (PFun 1) [PInt 9] [(''seed'', PInt 5), (''hidden'', PInt 64)]]"
    by (simp add: demo_resolve_mlp demo_dicts_2)
  from t[THEN conjunct2] demo_resolve_mlp[of demo_state] e m
  have "get_model demo_env (PStr ''mlp'') (PDict 2) (PInt 9) (PInt 5) PNone True demo_state =
      invoke demo_env (PFun 1) [PInt 9] [(''seed'', PInt 5), (''hidden'', PInt 64)] ?s1"
    by blast
  then have 2: "modules (store (snd (get_model demo_env (PStr ''mlp'') (PDict 2) (PInt 9) (PInt 5)
        PNone True demo_state))) 20 =
     [(''weight'', PTuple [PInt 9]), (''bias'', PTuple [PInt 5, PInt 64])]"
    by (simp add: invoke_def demo_apply_fn demo_apply_def)
  from 1 2 show ?thesis by simp
qed

text \<open>
  C5. Let the builder have returned \<open>net\<close>. With no state dictionary (\<open>None\<close>)
  \<open>get_model\<close> returns \<open>net\<close> in the state the builder left: nothing is loaded.
  With one, an error of the load is the error of \<open>get_model\<close>. When \<open>net\<close> is a
  module and the names of the blob do not match its parameters, \<open>strict=True\<close> fails
  with the load's \<open>RuntimeError\<close>, and \<open>strict=False\<close> succeeds on the same blob:
  it returns \<open>net\<close>, with the parameters the blob names overwritten.
\<close>

theorem get_model_state_dict:
  assumes "resolve env Models model_fn s = (Inr f, s1)"
    and "expand (store s1) model_config = Inr cfg"
    and "map_of cfg ''seed'' = None"
    and "invoke env f [dataloader] ((''seed'', seed) # cfg) s1 = (Inr net, s2)"
  shows "get_model env model_fn model_config dataloader seed PNone strict s = (Inr net, s2)
       \<and> (\<forall>sd e s3. sd \<noteq> PNone \<and> load_step net sd strict s2 = (Inl e, s3)
            \<longrightarrow> get_model env model_fn model_config dataloader seed sd strict s = (Inl e, s3))
       \<and> (\<forall>m d. net = PModule m \<and> mismatch (modules (store s2) m) (dicts (store s2) d)
            \<longrightarrow> get_model env model_fn model_config dataloader seed (PDict d) True s =
                  (Inl RuntimeError, s2\<lparr>trace := trace s2 @ [Loaded net (PDict d) True]\<rparr>)
              \<and> get_model env model_fn model_config dataloader seed (PDict d) False s =
                  (Inr net,
                   \<lparr>store = (store s2)\<lparr>modules := (modules (store s2))
                              (m := overwrite (modules (store s2) m) (dicts (store s2) d))\<rparr>,
                    trace = trace s2 @ [Loaded net (PDict d) False]\<rparr>))"
  using assms
  by (simp add: get_model_def load_step_def load_state_dict_def Let_def)

theorem get_model_state_dict_witness:
  "mismatch [(''weight'', PTuple [PInt 9]), (''bias'', PTuple [PInt 5, PInt 64])]
            [(''weight'', PInt 7), (''extra'', PInt 8)]
   \<and> fst (get_model demo_env (PStr ''mlp'') (PDict 2) (PInt 9) (PInt 5) (PDict 4) True demo_state) =
       Inl RuntimeError
   \<and> fst (get_model demo_env (PStr ''mlp'') (PDict 2) (PInt 9) (PInt 5) (PDict 4) False demo_state) =
       Inr (PModule 20)
   \<and> modules (store (snd (get_model demo_env (PStr ''mlp'') (PDict 2) (PInt 9) (PInt 5) (PDict 4)
        False demo_state))) 20 =
       [(''weight'', PInt 7), (''bias'', PTuple [PInt 5, PInt 64])]
   \<and> trace (snd (get_model demo_env (PStr ''mlp'') (PDict 2) (PInt 9) (PInt 5) PNone True demo_state)) =
       [Evaluated ''models.mlp'',
        Called (PFun 1) [PInt 9] [(''seed'', PInt 5), (''hidden'', PInt 64)]]"
proof -
  let ?s1 = "demo_state\<lparr>trace := trace demo_state @ [Evaluated ''models.mlp'']\<rparr>"
  let ?st2 = "demo_store\<lparr>modules := (modules demo_store)
       (20 := [(''weight'', PTuple [PInt 9]), (''bias'', PTuple [PInt 5, PInt 64])])\<rparr>"
  let ?s2 = "\<lparr>store = ?st2,
      trace = [Evaluated ''models.mlp'',
               Called (PFun 1) [PInt 9] [(''seed'', PInt 5), (''hidden'', PInt 64)]]\<rparr>"
  have e: "expand (store ?s1) (PDict 2) = Inr [(''hidden'', PInt 64)]"
    by (simp add: demo_state_def demo_store_def demo_dicts_def)
  have m: "map_of [(''hidden'', PInt 64)] ''seed'' = None" by simp
  have i: "invoke demo_env (PFun 1) [PInt 9] ((''seed'', PInt 5) # [(''hidden'', PInt 64)]) ?s1 =
      (Inr (PModule 20), ?s2)"
    by (simp add: invoke_def demo_apply_fn demo_apply_def demo_state_def)
  have mm: "mismatch [(''weight'', PTuple [PInt 9]), (''bias'', PTuple [PInt 5, PInt 64])]
            [(''weight'', PInt 7), (''extra'', PInt 8)]"
    by (simp add: mismatch_def missing_keys_def unexpected_keys_def)
  have p: "modules (store ?s2) 20 = [(''weight'', PTuple [PInt 9]), (''bias'', PTuple [PInt 5, PInt 64])]"
    by simp
  have b: "dicts (store ?s2) 4 = [(''weight'', PInt 7), (''extra'', PInt 8)]"
    by (simp add: demo_store_def demo_dicts_def)
  have mm': "PModule 20 = PModule 20 \<and> mismatch (modules (store ?s2) 20) (dicts (store ?s2) 4)"
    using mm by (simp only: p b)
  note t = get_model_state_dict[OF demo_resolve_mlp e m i, of True]
  from t have 3: "get_model demo_env (PStr ''mlp'') (PDict 2) (PInt 9) (PInt 5) PNone True demo_state =
      (Inr (PModule 20), ?s2)"
    by blast
  from t mm' have 1: "get_model demo_env (PStr ''mlp'') (PDict 2) (PInt 9) (PInt 5) (PDict 4) True
        demo_state = (Inl RuntimeError, ?s2\<lparr>trace := trace ?s2 @ [Loaded (PModule 20) (PDict 4) True]\<rparr>)"
    by blast
  from t mm' have 2: "get_model demo_env (PStr ''mlp'') (PDict 2) (PInt 9) (PInt 5) (PDict 4) False
        demo_state =
       (Inr (PModule 20),
        \<lparr>store = (store ?s2)\<lparr>modules := (modules (store ?s2))
             (20 := overwrite (modules (store ?s2) 20) (dicts (store ?s2) 4))\<rparr>,
         trace = trace ?s2 @ [Loaded (PModule 20) (PDict 4) False]\<rparr>)"
    by blast
  have o: "overwrite (modules (store ?s2) 20) (dicts (store ?s2) 4) =
      [(''weight'', PInt 7), (''bias'', PTuple [PInt 5, PInt 64])]"
    by (simp only: p b) (simp add: overwrite_def)
  show ?thesis
    using mm by (simp only: 1 2 3 o) simp
qed

section \<open>Trainer resolution\<close>

text \<open>
  C1. For a string identifier and a configuration dictionary, \<open>get_trainer\<close> resolves
  the string (in the \<open>training\<close> package, or through the dynamic loader when the string
  has a module path: this is \<open>resolve_name\<close> at \<open>Training\<close>) and what it returns is
  the outcome of calling the resolved function with no positional argument and the
  items of the dictionary as keywords: the value the call returns, not the function.
\<close>

theorem get_trainer_string_invokes:
  assumes "resolve_name env Training name (py_print (PDict c) s) = (Inr f, s1)"
  shows "get_trainer env (PStr name) (PDict c) s = invoke env f [] (dicts (store s1) c) s1
       \<and> fst (get_trainer env (PStr name) (PDict c) s) =
           fst (call env f [] (dicts (store s1) c) (store s1))"
  using assms by (simp add: get_trainer_def Let_def invoke_def split: prod.splits)

theorem get_trainer_string_invokes_witness:
  "resolve_name demo_env Training ''sgd'' (py_print (PDict 3) demo_state) =
     (Inr (PFun 2), \<lparr>store = demo_store, trace = [Printed (PDict 3), Evaluated ''training.sgd'']\<rparr>)
   \<and> get_trainer demo_env (PStr ''sgd'') (PDict 3) demo_state =
     (Inr (PTuple [PInt 1]),
      \<lparr>store = demo_store,
       trace = [Printed (PDict 3), Evaluated ''training.sgd'',
                Called (PFun 2) [] [(''lr'', PInt 1)]]\<rparr>)"
proof -
  have h: "resolve_name demo_env Training ''sgd'' (py_print (PDict 3) demo_state) =
     (Inr (PFun 2),
      \<lparr>store = demo_store, trace = [Printed (PDict 3), Evaluated ''training.sgd'']\<rparr>)"
    by (simp add: step_defs name_defs demo_env_def demo_state_def)
  have i: "invoke demo_env (PFun 2) [] [(''lr'', PInt 1)]
              \<lparr>store = demo_store, trace = [Printed (PDict 3), Evaluated ''training.sgd'']\<rparr> =
     (Inr (PTuple [PInt 1]),
      \<lparr>store = demo_store,
       trace = [Printed (PDict 3), Evaluated ''training.sgd'',
                Called (PFun 2) [] [(''lr'', PInt 1)]]\<rparr>)"
    by (simp add: invoke_def demo_env_def demo_apply_def)
  have k: "dicts demo_store 3 = [(''lr'', PInt 1)]"
    by (simp add: demo_store_def demo_dicts_def)
  from get_trainer_string_invokes[OF h] show ?thesis
    by (simp add: h i k)
qed

text \<open>
  C2. For a callable identifier and a configuration dictionary, \<open>get_trainer\<close> calls
  nothing: the store is as before and the trace has grown by the \<open>print\<close> alone. It
  returns a new callable, and calling that with no argument, in any store, does what
  calling the original with the items of the dictionary (as they were at resolution
  time) as keywords does.
\<close>

theorem get_trainer_callable_partial:
  assumes "callable f"
  shows "\<exists>p. get_trainer env f (PDict c) s =
               (Inr p, s\<lparr>trace := trace s @ [Printed (PDict c)]\<rparr>)
            \<and> (\<forall>st. call env p [] [] st = call env f [] (dicts (store s) c) st)"
proof -
  from assms obtain p where p: "partial f [] (dicts (store s) c) = Inr p"
    by (cases f) auto
  from assms have "get_trainer env f (PDict c) s =
      (Inr p, s\<lparr>trace := trace s @ [Printed (PDict c)]\<rparr>)"
    using p by (cases f) (simp_all add: get_trainer_def Let_def py_print_def)
  with call_partial[OF p] show ?thesis by blast
qed

theorem get_trainer_callable_partial_witness:
  "callable (PFun 2)
   \<and> get_trainer demo_env (PFun 2) (PDict 3) demo_state =
       (Inr (PPartial (PFun 2) [] [(''lr'', PInt 1)]),
        \<lparr>store = demo_store, trace = [Printed (PDict 3)]\<rparr>)
   \<and> call demo_env (PPartial (PFun 2) [] [(''lr'', PInt 1)]) [] [] demo_store =
       (Inr (PTuple [PInt 1]), demo_store)
   \<and> call demo_env (PFun 2) [] [(''lr'', PInt 1)] demo_store =
       (Inr (PTuple [PInt 1]), demo_store)"
proof -
  have h: "callable (PFun 2)" by simp
  from get_trainer_callable_partial[OF h, of demo_env 3 demo_state]
  obtain p where p: "get_trainer demo_env (PFun 2) (PDict 3) demo_state =
        (Inr p, demo_state\<lparr>trace := trace demo_state @ [Printed (PDict 3)]\<rparr>)"
      and c: "\<forall>st. call demo_env p [] [] st =
                call demo_env (PFun 2) [] (dicts (store demo_state) 3) st"
    by blast
  have g: "get_trainer demo_env (PFun 2) (PDict 3) demo_state =
       (Inr (PPartial (PFun 2) [] [(''lr'', PInt 1)]),
        \<lparr>store = demo_store, trace = [Printed (PDict 3)]\<rparr>)"
    by (simp add: get_trainer_def Let_def py_print_def demo_state_def demo_store_def
          demo_dicts_def)
  from p g have pe: "p = PPartial (PFun 2) [] [(''lr'', PInt 1)]" by simp
  have k: "dicts (store demo_state) 3 = [(''lr'', PInt 1)]"
    by (simp add: demo_state_def demo_store_def demo_dicts_def)
  have r: "call demo_env (PFun 2) [] [(''lr'', PInt 1)] demo_store =
      (Inr (PTuple [PInt 1]), demo_store)"
    by (simp add: demo_env_def demo_apply_def)
  from c[rule_format, of demo_store] pe k r
  have "call demo_env (PPartial (PFun 2) [] [(''lr'', PInt 1)]) [] [] demo_store =
      (Inr (PTuple [PInt 1]), demo_store)"
    by simp
  with h g r show ?thesis by simp
qed

text \<open>
  C8. For a callable identifier and no configuration (\<open>None\<close>), \<open>get_trainer\<close> runs
  off its end: it returns \<open>None\<close>, not the callable it was given, having done nothing
  but print.
\<close>

theorem get_trainer_callable_no_config:
  assumes "callable f"
  shows "get_trainer env f PNone s = (Inr PNone, s\<lparr>trace := trace s @ [Printed PNone]\<rparr>)
       \<and> fst (get_trainer env f PNone s) \<noteq> Inr f"
  using assms by (cases f) (simp_all add: get_trainer_def Let_def py_print_def)

theorem get_trainer_callable_no_config_witness:
  "callable (PFun 2)
   \<and> get_trainer demo_env (PFun 2) PNone demo_state =
       (Inr PNone, \<lparr>store = demo_store, trace = [Printed PNone]\<rparr>)"
proof -
  have h: "callable (PFun 2)" by simp
  from get_trainer_callable_no_config[OF h, of demo_env demo_state] h show ?thesis
    by (simp add: demo_state_def)
qed

text \<open>
  C9. For a string identifier and no configuration (\<open>None\<close>), \<open>get_trainer\<close> always
  fails and never calls what it resolved: either resolution fails, or it succeeds and
  the keyword expansion of \<open>None\<close> raises \<open>TypeError\<close>. The resolved callable is
  not returned.
\<close>

theorem get_trainer_string_no_config:
  "(\<exists>e. fst (get_trainer env (PStr name) PNone s) = Inl e)
   \<and> calls_of (new_events s (snd (get_trainer env (PStr name) PNone s))) = []
   \<and> (\<forall>f s1. resolve_name env Training name (py_print PNone s) = (Inr f, s1)
        \<longrightarrow> get_trainer env (PStr name) PNone s = (Inl TypeError, s1))"
proof -
  obtain r s1 where rs: "resolve_name env Training name (py_print PNone s) = (r, s1)"
    by (cases "resolve_name env Training name (py_print PNone s)")
  from resolve_name_trace[OF rs] obtain ev where
    ev: "trace s1 = trace s @ [Printed PNone, ev]" "\<not> is_call ev"
    by (auto simp: py_print_def)
  have g: "get_trainer env (PStr name) PNone s =
      (case r of Inl e \<Rightarrow> Inl e | Inr f \<Rightarrow> Inl TypeError, s1)"
    using rs by (simp add: get_trainer_def Let_def split: sum.splits)
  have "calls_of (new_events s s1) = []"
    using ev by (simp add: new_events_append[OF ev(1)] calls_of_def)
  then show ?thesis using g rs by (auto split: sum.splits)
qed

theorem get_trainer_string_no_config_witness:
  "resolve_name demo_env Training ''sgd'' (py_print PNone demo_state) =
     (Inr (PFun 2), \<lparr>store = demo_store, trace = [Printed PNone, Evaluated ''training.sgd'']\<rparr>)
   \<and> get_trainer demo_env (PStr ''sgd'') PNone demo_state =
     (Inl TypeError, \<lparr>store = demo_store, trace = [Printed PNone, Evaluated ''training.sgd'']\<rparr>)"
proof -
  have h: "resolve_name demo_env Training ''sgd'' (py_print PNone demo_state) =
     (Inr (PFun 2), \<lparr>store = demo_store, trace = [Printed PNone, Evaluated ''training.sgd'']\<rparr>)"
    by (simp add: step_defs name_defs demo_env_def demo_state_def)
  from get_trainer_string_no_config[of demo_env "''sgd''" demo_state] h show ?thesis
    by blast
qed

section \<open>Aggregate composition\<close>

text \<open>
  C6. \<open>get_all_parts(dataset_fn="foo.bar.make_loaders", dataset_config={"batch_size":
  32}, model_fn="baz.make_model", model_config={"hidden": 64}, dl_key="train")\<close>, every
  other parameter at its default. Where the dynamic loader finds \<open>make_loaders\<close> in
  \<open>foo.bar\<close> and \<open>make_model\<close> in \<open>baz\<close>, and both return, the function imports
  and calls \<open>make_loaders(batch_size=32)\<close>, takes the \<open>train\<close> entry of what it
  returned, imports and calls \<open>make_model(entry, seed=None, hidden=64)\<close>, does nothing
  else, and returns the pair of the dataloaders and the model.
\<close>

theorem get_all_parts_end_to_end:
  assumes "dynamic_import env ''foo.bar'' ''make_loaders'' (store s) = (Inr make_loaders, st1)"
    and "dicts st1 dc = [(''batch_size'', PInt 32)]"
    and "call env make_loaders [] [(''batch_size'', PInt 32)] st1 = (Inr loaders, st2)"
    and "subscript st2 loaders (PStr ''train'') = Inr entry"
    and "dynamic_import env ''baz'' ''make_model'' st2 = (Inr make_model, st3)"
    and "dicts st3 mc = [(''hidden'', PInt 64)]"
    and "call env make_model [entry] [(''seed'', PNone), (''hidden'', PInt 64)] st3 = (Inr model, st4)"
  shows "get_all_parts env (PStr ''foo.bar.make_loaders'') (PDict dc) (PStr ''baz.make_model'')
           (PDict mc) PNone (PStr ''train'') PNone True PNone PNone s =
         (Inr (PTuple [loaders, model]),
          \<lparr>store = st4,
           trace = trace s @
             [Imported ''foo.bar'' ''make_loaders'',
              Called make_loaders [] [(''batch_size'', PInt 32)],
              Imported ''baz'' ''make_model'',
              Called make_model [entry] [(''seed'', PNone), (''hidden'', PInt 64)]]\<rparr>)"
proof -
  have sp1: "split_module_name ''foo.bar.make_loaders'' = (''foo.bar'', ''make_loaders'')"
    by (simp add: split_module_name_def)
  have sp2: "split_module_name ''baz.make_model'' = (''baz'', ''make_model'')"
    by (simp add: split_module_name_def)
  let ?s1 = "\<lparr>store = st1, trace = trace s @ [Imported ''foo.bar'' ''make_loaders'']\<rparr>"
  let ?s2 = "\<lparr>store = st2, trace = trace s @ [Imported ''foo.bar'' ''make_loaders'',
              Called make_loaders [] [(''batch_size'', PInt 32)]]\<rparr>"
  let ?s3 = "\<lparr>store = st3, trace = trace s @ [Imported ''foo.bar'' ''make_loaders'',
              Called make_loaders [] [(''batch_size'', PInt 32)], Imported ''baz'' ''make_model'']\<rparr>"
  let ?s4 = "\<lparr>store = st4, trace = trace s @ [Imported ''foo.bar'' ''make_loaders'',
              Called make_loaders [] [(''batch_size'', PInt 32)], Imported ''baz'' ''make_model'',
              Called make_model [entry] [(''seed'', PNone), (''hidden'', PInt 64)]]\<rparr>"
  have r1: "resolve env Datasets (PStr ''foo.bar.make_loaders'') s = (Inr make_loaders, ?s1)"
    using assms(1) by (simp add: resolve_def resolve_name_def sp1 import_step_def)
  have d: "get_data env (PStr ''foo.bar.make_loaders'') (PDict dc) s = (Inr loaders, ?s2)"
    using assms(2,3) by (simp add: get_data_def r1 invoke_def)
  have r2: "resolve env Models (PStr ''baz.make_model'') ?s2 = (Inr make_model, ?s3)"
    using assms(5) by (simp add: resolve_def resolve_name_def sp2 import_step_def)
  have m: "get_model env (PStr ''baz.make_model'') (PDict mc) entry PNone PNone True ?s2 = (Inr model, ?s4)"
    using assms(6,7) by (simp add: get_model_def r2 invoke_def)
  show ?thesis
    using assms(4) by (simp add: get_all_parts_def d m)
qed

theorem get_all_parts_end_to_end_witness:
  "fst (get_all_parts demo_env (PStr ''foo.bar.make_loaders'') (PDict 1) (PStr ''baz.make_model'')
          (PDict 2) PNone (PStr ''train'') PNone True PNone PNone demo_state) =
     Inr (PTuple [PDict 10, PModule 20])
   \<and> trace (snd (get_all_parts demo_env (PStr ''foo.bar.make_loaders'') (PDict 1)
          (PStr ''baz.make_model'') (PDict 2) PNone (PStr ''train'') PNone True PNone PNone
          demo_state)) =
     [Imported ''foo.bar'' ''make_loaders'',
      Called (PFun 0) [] [(''batch_size'', PInt 32)],
      Imported ''baz'' ''make_model'',
      Called (PFun 1) [PTuple [PInt 32]] [(''seed'', PNone), (''hidden'', PInt 64)]]"
proof -
  let ?st2 = "demo_store\<lparr>dicts := (dicts demo_store)
      (10 := [(''train'', PTuple (map snd [(''batch_size'', PInt 32)])), (''test'', PNone)])\<rparr>"
  let ?st4 = "?st2\<lparr>modules := (modules ?st2)
      (20 := [(''weight'', PTuple [PTuple [PInt 32]]),
              (''bias'', PTuple (map snd [(''seed'', PNone), (''hidden'', PInt 64)]))])\<rparr>"
  have 1: "dynamic_import demo_env ''foo.bar'' ''make_loaders'' (store demo_state) =
      (Inr (PFun 0), demo_store)"
    by (simp add: demo_env_def demo_import_def demo_state_def)
  have 2: "dicts demo_store 1 = [(''batch_size'', PInt 32)]"
    by (simp add: demo_store_def demo_dicts_def)
  have 3: "call demo_env (PFun 0) [] [(''batch_size'', PInt 32)] demo_store = (Inr (PDict 10), ?st2)"
    by (simp add: demo_apply_fn demo_apply_def)
  have 4: "subscript ?st2 (PDict 10) (PStr ''train'') = Inr (PTuple [PInt 32])"
    by simp
  have 5: "dynamic_import demo_env ''baz'' ''make_model'' ?st2 = (Inr (PFun 1), ?st2)"
    by (simp add: demo_env_def demo_import_def)
  have 6: "dicts ?st2 2 = [(''hidden'', PInt 64)]"
    by (simp add: demo_store_def demo_dicts_def)
  have 7: "call demo_env (PFun 1) [PTuple [PInt 32]] [(''seed'', PNone), (''hidden'', PInt 64)] ?st2 =
      (Inr (PModule 20), ?st4)"
    by (simp add: demo_apply_fn demo_apply_def)
  have t: "trace demo_state = []" by (simp add: demo_state_def)
  from get_all_parts_end_to_end[OF 1 2 3 4 5 6 7] show ?thesis
    by (simp add: t)
qed

text \<open>
  C7. \<open>get_all_parts\<close> returns the triple of dataloaders, model and trainer result
  when a trainer identifier is given (it is not \<open>None\<close>) and the pair of dataloaders
  and model otherwise. An error of a step (\<open>get_data\<close>, the subscript by \<open>dl_key\<close>,
  \<open>get_model\<close>, \<open>get_trainer\<close>) is the error of \<open>get_all_parts\<close>, unchanged, in
  the state that step left: no later step runs.
\<close>

theorem get_all_parts_outcomes:
  "(get_data env dataset_fn dataset_config s = (Inl e, s1)
      \<longrightarrow> get_all_parts env dataset_fn dataset_config model_fn model_config seed dl_key
            state_dict strict trainer_fn trainer_config s = (Inl e, s1))
   \<and> (get_data env dataset_fn dataset_config s = (Inr dls, s1)
        \<and> subscript (store s1) dls dl_key = Inl e
      \<longrightarrow> get_all_parts env dataset_fn dataset_config model_fn model_config seed dl_key
            state_dict strict trainer_fn trainer_config s = (Inl e, s1))
   \<and> (get_data env dataset_fn dataset_config s = (Inr dls, s1)
        \<and> subscript (store s1) dls dl_key = Inr dl
        \<and> get_model env model_fn model_config dl seed state_dict strict s1 = (Inl e, s2)
      \<longrightarrow> get_all_parts env dataset_fn dataset_config model_fn model_config seed dl_key
            state_dict strict trainer_fn trainer_config s = (Inl e, s2))
   \<and> (get_data env dataset_fn dataset_config s = (Inr dls, s1)
        \<and> subscript (store s1) dls dl_key = Inr dl
        \<and> get_model env model_fn model_config dl seed state_dict strict s1 = (Inr model, s2)
        \<and> trainer_fn = PNone
      \<longrightarrow> get_all_parts env dataset_fn dataset_config model_fn model_config seed dl_key
            state_dict strict trainer_fn trainer_config s = (Inr (PTuple [dls, model]), s2))
   \<and> (get_data env dataset_fn dataset_config s = (Inr dls, s1)
        \<and> subscript (store s1) dls dl_key = Inr dl
        \<and> get_model env model_fn model_config dl seed state_dict strict s1 = (Inr model, s2)
        \<and> trainer_fn \<noteq> PNone
        \<and> get_trainer env trainer_fn trainer_config s2 = (Inl e, s3)
      \<longrightarrow> get_all_parts env dataset_fn dataset_config model_fn model_config seed dl_key
            state_dict strict trainer_fn trainer_config s = (Inl e, s3))
   \<and> (get_data env dataset_fn dataset_config s = (Inr dls, s1)
        \<and> subscript (store s1) dls dl_key = Inr dl
        \<and> get_model env model_fn model_config dl seed state_dict strict s1 = (Inr model, s2)
        \<and> trainer_fn \<noteq> PNone
        \<and> get_trainer env trainer_fn trainer_config s2 = (Inr trainer, s3)
      \<longrightarrow> get_all_parts env dataset_fn dataset_config model_fn model_config seed dl_key
            state_dict strict trainer_fn trainer_config s =
          (Inr (PTuple [dls, model, trainer]), s3))"
  by (simp add: get_all_parts_def)

theorem get_all_parts_outcomes_witness:
  "get_all_parts demo_env (PStr ''nothing'') (PDict 1) (PStr ''mlp'') (PDict 2) PNone
       (PStr ''train'') PNone True (PStr ''sgd'') (PDict 3) demo_state =
     (Inl AttributeError, \<lparr>store = demo_store, trace = [Evaluated ''datasets.nothing'']\<rparr>)
   \<and> fst (get_all_parts demo_env (PStr ''mnist'') (PDict 1) (PStr ''nothing'') (PDict 2) PNone
       (PStr ''train'') PNone True (PStr ''sgd'') (PDict 3) demo_state) = Inl AttributeError
   \<and> fst (get_all_parts demo_env (PStr ''mnist'') (PDict 1) (PStr ''mlp'') (PDict 2) PNone
       (PStr ''train'') PNone True PNone PNone demo_state) =
       Inr (PTuple [PDict 10, PModule 20])
   \<and> fst (get_all_parts demo_env (PStr ''mnist'') (PDict 1) (PStr ''mlp'') (PDict 2) PNone
       (PStr ''train'') PNone True (PStr ''sgd'') PNone demo_state) = Inl TypeError
   \<and> fst (get_all_parts demo_env (PStr ''mnist'') (PDict 1) (PStr ''mlp'') (PDict 2) PNone
       (PStr ''train'') PNone True (PStr ''sgd'') (PDict 3) demo_state) =
       Inr (PTuple [PDict 10, PModule 20, PTuple [PInt 1]])
   \<and> fst (get_all_parts demo_env (PStr ''mnist'') (PDict 1) (PStr ''mlp'') (PDict 2) PNone
       (PStr ''valid'') PNone True (PStr ''sgd'') (PDict 3) demo_state) = Inl KeyError"
proof -
  let ?st1 = "demo_store\<lparr>dicts := demo_dicts(10 := [(''train'', PTuple [PInt 32]), (''test'', PNone)])\<rparr>"
  let ?s1 = "\<lparr>store = ?st1,
      trace = [Evaluated ''datasets.mnist'', Called (PFun 0) [] [(''batch_size'', PInt 32)]]\<rparr>"
  let ?st2 = "(store ?s1)\<lparr>modules := (modules (store ?s1))
                 (20 := [(''weight'', PTuple [PTuple [PInt 32]]), (''bias'', PTuple [PNone, PInt 64])])\<rparr>"
  let ?s2 = "\<lparr>store = ?st2,
       trace = trace ?s1 @ [Evaluated ''models.mlp'',
          Called (PFun 1) [PTuple [PInt 32]] [(''seed'', PNone), (''hidden'', PInt 64)]]\<rparr>"
  have d0: "get_data demo_env (PStr ''nothing'') (PDict 1) demo_state =
      (Inl AttributeError, \<lparr>store = demo_store, trace = [Evaluated ''datasets.nothing'']\<rparr>)"
    by (simp add: get_data_def demo_resolve_absent demo_state_def)
  note d = demo_get_data
  have sub: "subscript (store ?s1) (PDict 10) (PStr ''train'') = Inr (PTuple [PInt 32])"
    by simp
  have nosub: "subscript (store ?s1) (PDict 10) (PStr ''valid'') = Inl KeyError"
    by simp
  have m0: "get_model demo_env (PStr ''nothing'') (PDict 2) (PTuple [PInt 32]) PNone PNone True ?s1 =
      (Inl AttributeError, ?s1\<lparr>trace := trace ?s1 @ [Evaluated ''models.nothing'']\<rparr>)"
    by (simp add: get_model_def demo_resolve_absent)
  have c2: "dicts (store ?s1) 2 = [(''hidden'', PInt 64)]"
    by (simp add: demo_dicts_def)
  note m = demo_get_model[OF c2, of "PTuple [PInt 32]" PNone True]
  have c3: "dicts (store ?s2) 3 = [(''lr'', PInt 1)]"
    by (simp add: demo_dicts_def)
  note t = demo_get_trainer[OF c3]
  note t0 = demo_get_trainer_none[of ?s2]
  have ne: "PStr ''sgd'' \<noteq> PNone" by simp
  note a = get_all_parts_outcomes[of demo_env _ _ demo_state]
  from a[of "PStr ''nothing''" "PDict 1" AttributeError
      "\<lparr>store = demo_store, trace = [Evaluated ''datasets.nothing'']\<rparr>"
      "PStr ''mlp''" "PDict 2" PNone "PStr ''train''" PNone True "PStr ''sgd''" "PDict 3"] d0
  have 1: "get_all_parts demo_env (PStr ''nothing'') (PDict 1) (PStr ''mlp'') (PDict 2) PNone
       (PStr ''train'') PNone True (PStr ''sgd'') (PDict 3) demo_state =
     (Inl AttributeError, \<lparr>store = demo_store, trace = [Evaluated ''datasets.nothing'']\<rparr>)"
    by blast
  from a[of "PStr ''mnist''" "PDict 1" AttributeError ?s1
      "PStr ''nothing''" "PDict 2" PNone "PStr ''train''" PNone True "PStr ''sgd''" "PDict 3"
      "PDict 10" "PTuple [PInt 32]" "?s1\<lparr>trace := trace ?s1 @ [Evaluated ''models.nothing'']\<rparr>"]
    d sub m0
  have 2: "fst (get_all_parts demo_env (PStr ''mnist'') (PDict 1) (PStr ''nothing'') (PDict 2) PNone
       (PStr ''train'') PNone True (PStr ''sgd'') (PDict 3) demo_state) = Inl AttributeError"
    by simp
  from a[of "PStr ''mnist''" "PDict 1" _ ?s1
      "PStr ''mlp''" "PDict 2" PNone "PStr ''train''" PNone True PNone PNone
      "PDict 10" "PTuple [PInt 32]" ?s2 "PModule 20"]
    d sub m
  have 3: "fst (get_all_parts demo_env (PStr ''mnist'') (PDict 1) (PStr ''mlp'') (PDict 2) PNone
       (PStr ''train'') PNone True PNone PNone demo_state) =
       Inr (PTuple [PDict 10, PModule 20])"
    by simp
  from a[of "PStr ''mnist''" "PDict 1" TypeError ?s1
      "PStr ''mlp''" "PDict 2" PNone "PStr ''train''" PNone True "PStr ''sgd''" PNone
      "PDict 10" "PTuple [PInt 32]" ?s2 "PModule 20"
      "\<lparr>store = store ?s2, trace = trace ?s2 @ [Printed PNone, Evaluated ''training.sgd'']\<rparr>"]
    d sub m t0 ne
  have 4: "fst (get_all_parts demo_env (PStr ''mnist'') (PDict 1) (PStr ''mlp'') (PDict 2) PNone
       (PStr ''train'') PNone True (PStr ''sgd'') PNone demo_state) = Inl TypeError"
    by simp
  from a[of "PStr ''mnist''" "PDict 1" _ ?s1
      "PStr ''mlp''" "PDict 2" PNone "PStr ''train''" PNone True "PStr ''sgd''" "PDict 3"
      "PDict 10" "PTuple [PInt 32]" ?s2 "PModule 20"
      "\<lparr>store = store ?s2, trace = trace ?s2 @ [Printed (PDict 3), Evaluated ''training.sgd'',
                          Called (PFun 2) [] [(''lr'', PInt 1)]]\<rparr>" "PTuple [PInt 1]"]
    d sub m t ne
  have 5: "fst (get_all_parts demo_env (PStr ''mnist'') (PDict 1) (PStr ''mlp'') (PDict 2) PNone
       (PStr ''train'') PNone True (PStr ''sgd'') (PDict 3) demo_state) =
       Inr (PTuple [PDict 10, PModule 20, PTuple [PInt 1]])"
    by simp
  from a[of "PStr ''mnist''" "PDict 1" KeyError ?s1
      "PStr ''mlp''" "PDict 2" PNone "PStr ''valid''" PNone True "PStr ''sgd''" "PDict 3" "PDict 10"]
    d nosub
  have 6: "fst (get_all_parts demo_env (PStr ''mnist'') (PDict 1) (PStr ''mlp'') (PDict 2) PNone
       (PStr ''valid'') PNone True (PStr ''sgd'') (PDict 3) demo_state) = Inl KeyError"
    by simp
  from 1 2 3 4 5 6 show ?thesis by (simp only:)
qed

section \<open>The configuration dictionaries are only read\<close>

text \<open>
  C10, as amended. None of the four operations itself writes to a dictionary: keyword
  expansion copies the items (a collaborator receives the list, not the address),
  \<open>partial\<close> keeps a copy, and loading a state dictionary writes to the module only.
  So a dictionary at any address \<open>a\<close>, in particular each of \<open>dataset_config\<close>,
  \<open>model_config\<close> and \<open>trainer_config\<close>, holds after \<open>get_data\<close>, \<open>get_model\<close>,
  \<open>get_trainer\<close> and \<open>get_all_parts\<close> what it held before, whenever the
  collaborators (the dynamic loader, the callables, \<open>eval\<close>) do not write to \<open>a\<close>.
\<close>

theorem configurations_not_mutated:
  assumes imp: "\<And>mp cn st. dicts (snd (dynamic_import env mp cn st)) a = dicts st a"
    and app: "\<And>f args kw st. dicts (snd (apply_fn env f args kw st)) a = dicts st a"
    and ev: "\<And>src st. dicts (snd (eval_other env src st)) a = dicts st a"
  shows "dicts (store (snd (get_data env dataset_fn dataset_config s))) a = dicts (store s) a
       \<and> dicts (store (snd (get_model env model_fn model_config dl seed state_dict strict s))) a =
           dicts (store s) a
       \<and> dicts (store (snd (get_trainer env trainer_fn trainer_config s))) a = dicts (store s) a
       \<and> dicts (store (snd (get_all_parts env dataset_fn dataset_config model_fn model_config
            seed dl_key state_dict strict trainer_fn trainer_config s))) a = dicts (store s) a"
  using get_data_keeps[OF imp app ev] get_model_keeps[OF imp app ev]
    get_trainer_keeps[OF imp app ev] get_all_parts_keeps[OF imp app ev]
  by simp

theorem configurations_not_mutated_witness:
  "dicts (store (snd (get_data demo_env (PStr ''mnist'') (PDict 1) demo_state))) 1 =
       [(''batch_size'', PInt 32)]
   \<and> dicts (store (snd (get_model demo_env (PStr ''mlp'') (PDict 2) (PInt 9) (PInt 5) (PDict 4) False
        demo_state))) 2 = [(''hidden'', PInt 64)]
   \<and> dicts (store (snd (get_trainer demo_env (PFun 2) (PDict 3) demo_state))) 3 = [(''lr'', PInt 1)]
   \<and> dicts (store (snd (get_all_parts demo_env (PStr ''mnist'') (PDict 1) (PStr ''mlp'') (PDict 2)
        PNone (PStr ''train'') PNone True (PStr ''sgd'') (PDict 3) demo_state))) 1 =
       [(''batch_size'', PInt 32)]"
proof -
  have imp: "\<And>a mp cn st. dicts (snd (dynamic_import demo_env mp cn st)) a = dicts st a"
    by (simp add: demo_env_def demo_import_def)
  have app: "\<And>a f args kw st. a \<noteq> 10 \<Longrightarrow> dicts (snd (apply_fn demo_env f args kw st)) a = dicts st a"
    by (simp add: demo_apply_fn demo_apply_def)
  have ev: "\<And>a src st. dicts (snd (eval_other demo_env src st)) a = dicts st a"
    by (simp add: demo_env_def)
  have n: "(1::nat) \<noteq> 10" "(2::nat) \<noteq> 10" "(3::nat) \<noteq> 10" by simp_all
  note c1 = configurations_not_mutated[of demo_env 1, OF imp app[OF n(1)] ev]
  note c2 = configurations_not_mutated[of demo_env 2, OF imp app[OF n(2)] ev]
  note c3 = configurations_not_mutated[of demo_env 3, OF imp app[OF n(3)] ev]
  have d: "dicts (store demo_state) 1 = [(''batch_size'', PInt 32)]"
    "dicts (store demo_state) 2 = [(''hidden'', PInt 64)]"
    "dicts (store demo_state) 3 = [(''lr'', PInt 1)]"
    by (simp_all add: demo_state_def demo_store_def demo_dicts_def)
  show ?thesis
    by (simp only: c1 c2 c3 d)
qed

text \<open>
  Without that proviso the statement fails: the operations call collaborators they do
  not control. A dataset function that closes over the caller's configuration clears
  it, and one that is handed a nested dictionary as a keyword value clears that, so
  after \<open>get_data\<close> the configuration passed in no longer holds what it held.
\<close>

theorem configurations_changed_by_collaborators:
  "dicts (store (snd (get_data greedy_env (PFun 3) (PDict 1) demo_state))) 1 \<noteq>
     dicts (store demo_state) 1
   \<and> dicts (store demo_state) 1 = [(''batch_size'', PInt 32)]
   \<and> dicts (store (snd (get_data greedy_env (PFun 3) (PDict 1) demo_state))) 1 = []
   \<and> dicts (store demo_state) 6 = [(''opt'', PDict 5)]
   \<and> dicts (store demo_state) 5 = [(''lr'', PInt 1)]
   \<and> dicts (store (snd (get_data greedy_env (PFun 4) (PDict 6) demo_state))) 5 = []"
  by (simp add: get_data_def resolve_def invoke_def greedy_env_def greedy_apply_def
        demo_env_def demo_state_def demo_store_def demo_dicts_def)

end
